theory Spec2Isabelle
  imports Main "HOL-Library.AList"
begin

section \<open>Values, documents, requests and responses\<close>

text \<open>
  The backend is an Express application over two MongoDB collections. The repository
  holds two versions of the entry point: variant A (string identifiers made from the
  clock, no index, no start-up check of the signing secret) and variant B (ObjectId
  identifiers, unique indexes on \<open>name\<close>, start-up check). Functions of variant A carry
  the suffix \<open>_A\<close>, those of variant B the suffix \<open>_B\<close>.

  Values are the JSON scalars a request body can carry, plus the two kinds of value
  the code itself creates: dates and ObjectIds. JavaScript's \<open>undefined\<close> is \<open>None\<close> of
  an option. Arrays and nested objects are outside this model (the driver would read a
  nested object in a filter as a query operator). Numbers are integers: the code only
  tests them for zero and stores them.
\<close>

datatype jsval = JNull | JBool bool | JNum int | JStr string | JDate nat | JOid string

text \<open>A stored (BSON) document and a parsed JSON object: an ordered list of fields.\<close>

type_synonym doc = "(string \<times> jsval) list"

text \<open>A JavaScript object literal whose property values may be \<open>undefined\<close>.\<close>

type_synonym jsobj = "(string \<times> jsval option) list"

fun truthy :: "jsval \<Rightarrow> bool" where
  "truthy JNull = False"
| "truthy (JBool b) = b"
| "truthy (JNum n) = (n \<noteq> 0)"
| "truthy (JStr s) = (s \<noteq> [])"
| "truthy (JDate t) = True"
| "truthy (JOid h) = True"

definition truthy_opt :: "jsval option \<Rightarrow> bool" where
  "truthy_opt v = (case v of None \<Rightarrow> False | Some x \<Rightarrow> truthy x)"

text \<open>\<open>JSON.stringify\<close> drops properties that are \<open>undefined\<close>.\<close>

fun json_doc :: "jsobj \<Rightarrow> doc" where
  "json_doc [] = []"
| "json_doc ((k, None) # fs) = json_doc fs"
| "json_doc ((k, Some v) # fs) = (k, v) # json_doc fs"

text \<open>The driver (option \<open>ignoreUndefined\<close> off, its default) stores \<open>undefined\<close> as null.\<close>

fun bson_doc :: "jsobj \<Rightarrow> doc" where
  "bson_doc [] = []"
| "bson_doc ((k, None) # fs) = (k, JNull) # bson_doc fs"
| "bson_doc ((k, Some v) # fs) = (k, v) # bson_doc fs"

datatype js_error = DuplicateKey | BSONError | JsonWebTokenError

text \<open>
  The parts of a request the handlers read: the \<open>Authorization\<close> header, the route
  parameter \<open>:id\<close>, the query parameter \<open>categoryId\<close>, the parsed JSON body, and
  \<open>req.user\<close>, which the authentication middleware sets.
\<close>

record request =
  authorization :: "string option"
  param_id :: string
  query_categoryId :: "string option"
  body :: doc
  user :: "doc option"

datatype resp_body = Error string | Message string | Doc doc | Docs "doc list" | Null

record response =
  status :: nat
  payload :: resp_body

definition respond :: "nat \<Rightarrow> resp_body \<Rightarrow> response" where
  "respond code b = \<lparr>status = code, payload = b\<rparr>"

text \<open>
  What a handler reads from outside the request and the database: the clock
  (\<open>new Date().getTime()\<close>, milliseconds), the configured signing secret, the
  ObjectIds the driver and the \<open>ObjectId\<close> constructor would generate, and the
  \<open>jsonwebtoken\<close> library. The library is not part of the repository: its two functions
  are parameters. \<open>jwt_sign payload secret ttl now\<close> and \<open>jwt_verify token secret now\<close>
  take the clock in seconds and return \<open>Inl\<close> where the library throws.
\<close>

record env =
  clock :: nat
  JWT_SECRET :: "string option"
  driver_oid :: string
  ctor_oid :: string
  jwt_sign :: "doc \<Rightarrow> string option \<Rightarrow> nat \<Rightarrow> nat \<Rightarrow> js_error + string"
  jwt_verify :: "string \<Rightarrow> string option \<Rightarrow> nat \<Rightarrow> js_error + doc"

section \<open>The persistence gateway: the MongoDB operations the handlers call\<close>

datatype coll = Categories | Subcategories

datatype db_call =
  Find coll | FindOne coll | InsertOne coll | UpdateOne coll
  | DeleteOne coll | DeleteMany coll | CreateIndex coll

text \<open>
  The database: the two collections in storage order, whether each carries a unique
  index on \<open>name\<close>, and the log of the operations run so far (every gateway operation
  appends its call, so an unchanged log means that no operation ran). Failures of the
  connection are outside the model; the errors modelled are the ones the data decides.
\<close>

record database =
  categories :: "doc list"
  subcategories :: "doc list"
  categories_name_unique :: bool
  subcategories_name_unique :: bool
  calls :: "db_call list"

definition collection :: "coll \<Rightarrow> database \<Rightarrow> doc list" where
  "collection c db = (case c of Categories \<Rightarrow> categories db | Subcategories \<Rightarrow> subcategories db)"

definition put_collection :: "coll \<Rightarrow> doc list \<Rightarrow> database \<Rightarrow> database" where
  "put_collection c ds db =
     (case c of Categories \<Rightarrow> db\<lparr>categories := ds\<rparr> | Subcategories \<Rightarrow> db\<lparr>subcategories := ds\<rparr>)"

definition name_unique :: "coll \<Rightarrow> database \<Rightarrow> bool" where
  "name_unique c db =
     (case c of Categories \<Rightarrow> categories_name_unique db
              | Subcategories \<Rightarrow> subcategories_name_unique db)"

definition logged :: "db_call \<Rightarrow> database \<Rightarrow> database" where
  "logged c db = db\<lparr>calls := calls db @ [c]\<rparr>"

text \<open>A filter \<open>{k: v}\<close> and an index read a missing field as null.\<close>

definition field :: "doc \<Rightarrow> string \<Rightarrow> jsval" where
  "field d k = (case map_of d k of None \<Rightarrow> JNull | Some v \<Rightarrow> v)"

definition matches :: "string \<Rightarrow> jsval \<Rightarrow> doc \<Rightarrow> bool" where
  "matches k v d = (field d k = v)"

fun first_index :: "('a \<Rightarrow> bool) \<Rightarrow> 'a list \<Rightarrow> nat option" where
  "first_index P [] = None"
| "first_index P (x # xs) = (if P x then Some 0 else map_option Suc (first_index P xs))"

text \<open>\<open>find(query).toArray()\<close>: \<open>None\<close> is the empty filter \<open>{}\<close>.\<close>

definition find_docs :: "coll \<Rightarrow> (string \<times> jsval) option \<Rightarrow> database \<Rightarrow> doc list \<times> database" where
  "find_docs c q db =
     ((case q of None \<Rightarrow> collection c db
               | Some (k, v) \<Rightarrow> filter (matches k v) (collection c db)),
      logged (Find c) db)"

definition findOne :: "coll \<Rightarrow> string \<Rightarrow> jsval \<Rightarrow> database \<Rightarrow> doc option \<times> database" where
  "findOne c k v db =
     ((case first_index (matches k v) (collection c db) of
         None \<Rightarrow> None | Some i \<Rightarrow> Some (collection c db ! i)),
      logged (FindOne c) db)"

text \<open>
  \<open>insertOne\<close>: a document without \<open>_id\<close> gets the ObjectId the driver generates;
  the insert throws on a duplicate \<open>_id\<close> and, under a unique index, on a duplicate
  \<open>name\<close>. The result is the inserted identifier.
\<close>

definition with_id :: "string \<Rightarrow> doc \<Rightarrow> doc" where
  "with_id fresh d = (case map_of d ''_id'' of None \<Rightarrow> (''_id'', JOid fresh) # d | Some v \<Rightarrow> d)"

definition insertOne :: "coll \<Rightarrow> string \<Rightarrow> doc \<Rightarrow> database \<Rightarrow> (js_error + jsval) \<times> database" where
  "insertOne c fresh d0 db =
     (let db1 = logged (InsertOne c) db;
          ds = collection c db;
          d = with_id fresh d0
      in if (\<exists>x \<in> set ds. field x ''_id'' = field d ''_id'')
            \<or> (name_unique c db \<and> (\<exists>x \<in> set ds. field x ''name'' = field d ''name''))
         then (Inl DuplicateKey, db1)
         else (Inr (field d ''_id''), put_collection c (ds @ [d]) db1))"

text \<open>\<open>$set\<close>: each field is replaced where it stands, or appended.\<close>

definition apply_set :: "doc \<Rightarrow> doc \<Rightarrow> doc" where
  "apply_set sets d = fold (\<lambda>(k, v). AList.update k v) sets d"

text \<open>
  \<open>updateOne(filter, {$set: sets})\<close> changes the first matching document and returns
  \<open>matchedCount\<close>; it throws when the new \<open>name\<close> is held by another document under
  a unique index.
\<close>

definition updateOne :: "coll \<Rightarrow> string \<Rightarrow> jsval \<Rightarrow> doc \<Rightarrow> database \<Rightarrow> (js_error + nat) \<times> database" where
  "updateOne c k v sets db =
     (let db1 = logged (UpdateOne c) db;
          ds = collection c db
      in case first_index (matches k v) ds of
           None \<Rightarrow> (Inr 0, db1)
         | Some i \<Rightarrow>
             (let d' = apply_set sets (ds ! i)
              in if name_unique c db
                    \<and> (\<exists>x \<in> set (take i ds @ drop (Suc i) ds). field x ''name'' = field d' ''name'')
                 then (Inl DuplicateKey, db1)
                 else (Inr 1, put_collection c (ds[i := d']) db1)))"

text \<open>\<open>deleteOne\<close> removes the first matching document and returns \<open>deletedCount\<close>.\<close>

definition deleteOne :: "coll \<Rightarrow> string \<Rightarrow> jsval \<Rightarrow> database \<Rightarrow> nat \<times> database" where
  "deleteOne c k v db =
     (let db1 = logged (DeleteOne c) db;
          ds = collection c db
      in case first_index (matches k v) ds of
           None \<Rightarrow> (0, db1)
         | Some i \<Rightarrow> (1, put_collection c (take i ds @ drop (Suc i) ds) db1))"

definition deleteMany :: "coll \<Rightarrow> string \<Rightarrow> jsval \<Rightarrow> database \<Rightarrow> nat \<times> database" where
  "deleteMany c k v db =
     (let db1 = logged (DeleteMany c) db;
          ds = collection c db
      in (length (filter (matches k v) ds),
          put_collection c (filter (\<lambda>d. \<not> matches k v d) ds) db1))"

text \<open>
  \<open>createIndex({name: 1}, {unique: true})\<close> fails when two documents already share a
  name.
\<close>

definition createIndex_name :: "coll \<Rightarrow> database \<Rightarrow> (js_error + unit) \<times> database" where
  "createIndex_name c db =
     (let db1 = logged (CreateIndex c) db
      in if distinct (map (\<lambda>d. field d ''name'') (collection c db))
         then (Inr (),
               (case c of Categories \<Rightarrow> db1\<lparr>categories_name_unique := True\<rparr>
                        | Subcategories \<Rightarrow> db1\<lparr>subcategories_name_unique := True\<rparr>))
         else (Inl DuplicateKey, db1))"

section \<open>Variant A: identifiers and category handlers\<close>

text \<open>\<open>new Date().getTime().toString()\<close>: the clock in decimal.\<close>

definition digit_char :: "nat \<Rightarrow> char" where
  "digit_char d = char_of (48 + d)"

function string_of_nat :: "nat \<Rightarrow> string" where
  "string_of_nat n =
     (if n < 10 then [digit_char n] else string_of_nat (n div 10) @ [digit_char (n mod 10)])"
  by pat_completeness auto
termination
  by (relation "measure id") auto

declare string_of_nat.simps [simp del]

text \<open>
  The object a create handler builds. One reading of the clock stands for the
  handler's three \<open>new Date()\<close> calls.
\<close>

definition new_category_A :: "env \<Rightarrow> doc \<Rightarrow> jsobj" where
  "new_category_A e b =
     [(''_id'', Some (JStr (string_of_nat (clock e)))),
      (''name'', map_of b ''name''),
      (''description'', map_of b ''description''),
      (''image'', map_of b ''image''),
      (''isActive'', (case map_of b ''isActive'' of None \<Rightarrow> Some (JBool True) | Some v \<Rightarrow> Some v)),
      (''createdAt'', Some (JDate (clock e))),
      (''updatedAt'', Some (JDate (clock e)))]"

definition get_categories_A :: "env \<Rightarrow> request \<Rightarrow> database \<Rightarrow> response \<times> database" where
  "get_categories_A e req db =
     (let (cs, db1) = find_docs Categories None db
      in (respond 200 (Docs cs), db1))"

definition get_category_A :: "env \<Rightarrow> request \<Rightarrow> database \<Rightarrow> response \<times> database" where
  "get_category_A e req db =
     (let (category, db1) = findOne Categories ''_id'' (JStr (param_id req)) db
      in case category of
           None \<Rightarrow> (respond 404 (Error ''Category not found''), db1)
         | Some c \<Rightarrow> (respond 200 (Doc c), db1))"

definition post_categories_A :: "env \<Rightarrow> request \<Rightarrow> database \<Rightarrow> response \<times> database" where
  "post_categories_A e req db =
     (if \<not> truthy_opt (map_of (body req) ''name'')
      then (respond 400 (Error ''Category name is required''), db)
      else
        (let category = new_category_A e (body req);
             (result, db1) = insertOne Categories (driver_oid e) (bson_doc category) db
         in case result of
              Inl err \<Rightarrow> (respond 500 (Error ''Failed to create category''), db1)
            | Inr insertedId \<Rightarrow>
                if truthy insertedId then (respond 201 (Doc (json_doc category)), db1)
                else (respond 500 (Error ''Failed to create category''), db1)))"

text \<open>\<open>updateData\<close>: the timestamp, then each field that is not \<open>undefined\<close>.\<close>

definition supplied :: "doc \<Rightarrow> string \<Rightarrow> doc" where
  "supplied b k = (case map_of b k of None \<Rightarrow> [] | Some v \<Rightarrow> [(k, v)])"

definition category_updateData :: "env \<Rightarrow> doc \<Rightarrow> doc" where
  "category_updateData e b =
     [(''updatedAt'', JDate (clock e))] @ supplied b ''name'' @ supplied b ''description''
       @ supplied b ''image'' @ supplied b ''isActive''"

definition put_category_A :: "env \<Rightarrow> request \<Rightarrow> database \<Rightarrow> response \<times> database" where
  "put_category_A e req db =
     (let updateData = category_updateData e (body req);
          (result, db1) = updateOne Categories ''_id'' (JStr (param_id req)) updateData db
      in case result of
           Inl err \<Rightarrow> (respond 500 (Error ''Failed to update category''), db1)
         | Inr matchedCount \<Rightarrow>
             if matchedCount = 0 then (respond 404 (Error ''Category not found''), db1)
             else
               (let (updatedCategory, db2) = findOne Categories ''_id'' (JStr (param_id req)) db1
                in case updatedCategory of
                     None \<Rightarrow> (respond 200 Null, db2)
                   | Some c \<Rightarrow> (respond 200 (Doc c), db2)))"

definition delete_category_A :: "env \<Rightarrow> request \<Rightarrow> database \<Rightarrow> response \<times> database" where
  "delete_category_A e req db =
     (let (deletedCount, db1) = deleteOne Categories ''_id'' (JStr (param_id req)) db
      in if deletedCount = 0 then (respond 404 (Error ''Category not found''), db1)
         else
           (let (n, db2) = deleteMany Subcategories ''categoryId'' (JStr (param_id req)) db1
            in (respond 200 (Message ''Category deleted successfully''), db2)))"

section \<open>Variant A: subcategory handlers\<close>

text \<open>\<open>const query = categoryId ? { categoryId } : {}\<close>\<close>

definition subcategory_query :: "string option \<Rightarrow> (string \<times> jsval) option" where
  "subcategory_query categoryId =
     (case categoryId of
        None \<Rightarrow> None
      | Some s \<Rightarrow> if s \<noteq> [] then Some (''categoryId'', JStr s) else None)"

definition get_subcategories_A :: "env \<Rightarrow> request \<Rightarrow> database \<Rightarrow> response \<times> database" where
  "get_subcategories_A e req db =
     (let (ss, db1) = find_docs Subcategories (subcategory_query (query_categoryId req)) db
      in (respond 200 (Docs ss), db1))"

definition get_subcategory_A :: "env \<Rightarrow> request \<Rightarrow> database \<Rightarrow> response \<times> database" where
  "get_subcategory_A e req db =
     (let (subcategory, db1) = findOne Subcategories ''_id'' (JStr (param_id req)) db
      in case subcategory of
           None \<Rightarrow> (respond 404 (Error ''Subcategory not found''), db1)
         | Some s \<Rightarrow> (respond 200 (Doc s), db1))"

definition new_subcategory_A :: "env \<Rightarrow> doc \<Rightarrow> jsobj" where
  "new_subcategory_A e b =
     [(''_id'', Some (JStr (string_of_nat (clock e)))),
      (''name'', map_of b ''name''),
      (''description'', map_of b ''description''),
      (''categoryId'', map_of b ''categoryId''),
      (''image'', map_of b ''image''),
      (''isActive'', (case map_of b ''isActive'' of None \<Rightarrow> Some (JBool True) | Some v \<Rightarrow> Some v)),
      (''createdAt'', Some (JDate (clock e))),
      (''updatedAt'', Some (JDate (clock e)))]"

definition post_subcategories_A :: "env \<Rightarrow> request \<Rightarrow> database \<Rightarrow> response \<times> database" where
  "post_subcategories_A e req db =
     (if \<not> truthy_opt (map_of (body req) ''name'')
      then (respond 400 (Error ''Subcategory name is required''), db)
      else if \<not> truthy_opt (map_of (body req) ''categoryId'')
      then (respond 400 (Error ''Category ID is required''), db)
      else
        (let (category, db1) = findOne Categories ''_id'' (field (body req) ''categoryId'') db
         in case category of
              None \<Rightarrow> (respond 400 (Error ''Parent category not found''), db1)
            | Some c \<Rightarrow>
                (let subcategory = new_subcategory_A e (body req);
                     (result, db2) = insertOne Subcategories (driver_oid e) (bson_doc subcategory) db1
                 in case result of
                      Inl err \<Rightarrow> (respond 500 (Error ''Failed to create subcategory''), db2)
                    | Inr insertedId \<Rightarrow>
                        if truthy insertedId then (respond 201 (Doc (json_doc subcategory)), db2)
                        else (respond 500 (Error ''Failed to create subcategory''), db2))))"

definition subcategory_updateData :: "env \<Rightarrow> doc \<Rightarrow> doc" where
  "subcategory_updateData e b =
     [(''updatedAt'', JDate (clock e))] @ supplied b ''name'' @ supplied b ''description''
       @ supplied b ''image'' @ supplied b ''isActive''"

text \<open>The update proper, after the check of the parent category.\<close>

definition write_subcategory_A :: "doc \<Rightarrow> request \<Rightarrow> database \<Rightarrow> response \<times> database" where
  "write_subcategory_A updateData req db =
     (let (result, db1) = updateOne Subcategories ''_id'' (JStr (param_id req)) updateData db
      in case result of
           Inl err \<Rightarrow> (respond 500 (Error ''Failed to update subcategory''), db1)
         | Inr matchedCount \<Rightarrow>
             if matchedCount = 0 then (respond 404 (Error ''Subcategory not found''), db1)
             else
               (let (updatedSubcategory, db2) =
                      findOne Subcategories ''_id'' (JStr (param_id req)) db1
                in case updatedSubcategory of
                     None \<Rightarrow> (respond 200 Null, db2)
                   | Some s \<Rightarrow> (respond 200 (Doc s), db2)))"

definition put_subcategory_A :: "env \<Rightarrow> request \<Rightarrow> database \<Rightarrow> response \<times> database" where
  "put_subcategory_A e req db =
     (let updateData = subcategory_updateData e (body req)
      in case map_of (body req) ''categoryId'' of
           None \<Rightarrow> write_subcategory_A updateData req db
         | Some categoryId \<Rightarrow>
             (let (category, db1) = findOne Categories ''_id'' categoryId db
              in case category of
                   None \<Rightarrow> (respond 400 (Error ''Parent category not found''), db1)
                 | Some c \<Rightarrow>
                     write_subcategory_A (updateData @ [(''categoryId'', categoryId)]) req db1))"

definition delete_subcategory_A :: "env \<Rightarrow> request \<Rightarrow> database \<Rightarrow> response \<times> database" where
  "delete_subcategory_A e req db =
     (let (deletedCount, db1) = deleteOne Subcategories ''_id'' (JStr (param_id req)) db
      in if deletedCount = 0 then (respond 404 (Error ''Subcategory not found''), db1)
         else (respond 200 (Message ''Subcategory deleted successfully''), db1))"

section \<open>Tokens and the authentication middleware\<close>


definition seconds :: "env \<Rightarrow> nat" where
  "seconds e = clock e div 1000"


text \<open>\<open>try { return jwt.verify(...) } catch (error) { return null }\<close>\<close>

definition verifyToken :: "env \<Rightarrow> string \<Rightarrow> doc option" where
  "verifyToken e token =
     (case jwt_verify e token (JWT_SECRET e) (seconds e) of
        Inl err \<Rightarrow> None
      | Inr decoded \<Rightarrow> Some decoded)"

text \<open>\<open>s.split(c)\<close> for a separator of one character.\<close>

fun split_on :: "char \<Rightarrow> string \<Rightarrow> string list" where
  "split_on c [] = [[]]"
| "split_on c (x # xs) =
     (if x = c then [] # split_on c xs
      else (case split_on c xs of [] \<Rightarrow> [[x]] | w # ws \<Rightarrow> (x # w) # ws))"

definition nth_opt :: "'a list \<Rightarrow> nat \<Rightarrow> 'a option" where
  "nth_opt xs i = (if i < length xs then Some (xs ! i) else None)"

text \<open>\<open>authHeader && authHeader.split(' ')[1]\<close>\<close>

definition bearer_token_A :: "string option \<Rightarrow> string option" where
  "bearer_token_A authHeader =
     (case authHeader of
        None \<Rightarrow> None
      | Some a \<Rightarrow> if a = [] then Some [] else nth_opt (split_on CHR '' '' a) 1)"

text \<open>
  \<open>authHeader.startsWith("Bearer ") ? authHeader.split(" ")[1] : null\<close>, where
  \<open>authHeader\<close> is the header or the empty string.
\<close>

definition bearer_token_B :: "string option \<Rightarrow> string option" where
  "bearer_token_B h =
     (let authHeader = (case h of None \<Rightarrow> [] | Some a \<Rightarrow> a)
      in if take 7 authHeader = ''Bearer '' then nth_opt (split_on CHR '' '' authHeader) 1
         else None)"

type_synonym handler = "env \<Rightarrow> request \<Rightarrow> database \<Rightarrow> response \<times> database"

text \<open>The middleware, given the token it extracted; \<open>!token\<close> holds for no token and for the empty one.\<close>

definition check_token :: "string option \<Rightarrow> handler \<Rightarrow> handler" where
  "check_token token next_handler e req db =
     (case token of
        None \<Rightarrow> (respond 401 (Error ''Access token required''), db)
      | Some t \<Rightarrow>
          if t = [] then (respond 401 (Error ''Access token required''), db)
          else
            (case verifyToken e t of
               None \<Rightarrow> (respond 403 (Error ''Invalid or expired token''), db)
             | Some decoded \<Rightarrow> next_handler e (req\<lparr>user := Some decoded\<rparr>) db))"

definition authenticateToken_A :: "handler \<Rightarrow> handler" where
  "authenticateToken_A next_handler e req db =
     check_token (bearer_token_A (authorization req)) next_handler e req db"

definition authenticateToken_B :: "handler \<Rightarrow> handler" where
  "authenticateToken_B next_handler e req db =
     check_token (bearer_token_B (authorization req)) next_handler e req db"

section \<open>The routes of variant A\<close>

datatype endpoint =
  GetCategories | GetCategory | PostCategories | PutCategory | DeleteCategory
  | GetSubcategories | GetSubcategory | PostSubcategories | PutSubcategory | DeleteSubcategory

fun mutating :: "endpoint \<Rightarrow> bool" where
  "mutating GetCategories = False"
| "mutating GetCategory = False"
| "mutating GetSubcategories = False"
| "mutating GetSubcategory = False"
| "mutating ep = True"

fun handler_A :: "endpoint \<Rightarrow> handler" where
  "handler_A GetCategories = get_categories_A"
| "handler_A GetCategory = get_category_A"
| "handler_A PostCategories = post_categories_A"
| "handler_A PutCategory = put_category_A"
| "handler_A DeleteCategory = delete_category_A"
| "handler_A GetSubcategories = get_subcategories_A"
| "handler_A GetSubcategory = get_subcategory_A"
| "handler_A PostSubcategories = post_subcategories_A"
| "handler_A PutSubcategory = put_subcategory_A"
| "handler_A DeleteSubcategory = delete_subcategory_A"

text \<open>Each route as the source registers it, with or without the middleware.\<close>

fun serve_A :: "endpoint \<Rightarrow> handler" where
  "serve_A GetCategories = get_categories_A"
| "serve_A GetCategory = get_category_A"
| "serve_A PostCategories = authenticateToken_A post_categories_A"
| "serve_A PutCategory = authenticateToken_A put_category_A"
| "serve_A DeleteCategory = authenticateToken_A delete_category_A"
| "serve_A GetSubcategories = get_subcategories_A"
| "serve_A GetSubcategory = get_subcategory_A"
| "serve_A PostSubcategories = authenticateToken_A post_subcategories_A"
| "serve_A PutSubcategory = authenticateToken_A put_subcategory_A"
| "serve_A DeleteSubcategory = authenticateToken_A delete_subcategory_A"

section \<open>Variant B: ObjectId identifiers\<close>

text \<open>
  \<open>new ObjectId(x)\<close>: a string must be 24 hexadecimal digits (read without regard to
  case), otherwise the constructor throws; for null or a number it generates an
  identifier; for any other value it throws.
\<close>

definition is_hex :: "char \<Rightarrow> bool" where
  "is_hex c = (c \<in> set ''0123456789abcdefABCDEF'')"

definition lower_hex :: "char \<Rightarrow> char" where
  "lower_hex c =
     (if c = CHR ''A'' then CHR ''a'' else if c = CHR ''B'' then CHR ''b''
      else if c = CHR ''C'' then CHR ''c'' else if c = CHR ''D'' then CHR ''d''
      else if c = CHR ''E'' then CHR ''e'' else if c = CHR ''F'' then CHR ''f'' else c)"

definition objectId_of_string :: "string \<Rightarrow> js_error + jsval" where
  "objectId_of_string s =
     (if length s = 24 \<and> list_all is_hex s then Inr (JOid (map lower_hex s)) else Inl BSONError)"

fun objectId_of :: "env \<Rightarrow> jsval \<Rightarrow> js_error + jsval" where
  "objectId_of e JNull = Inr (JOid (ctor_oid e))"
| "objectId_of e (JNum n) = Inr (JOid (ctor_oid e))"
| "objectId_of e (JStr s) = objectId_of_string s"
| "objectId_of e (JOid h) = Inr (JOid h)"
| "objectId_of e (JBool b) = Inl BSONError"
| "objectId_of e (JDate t) = Inl BSONError"

definition get_categories_B :: handler where
  "get_categories_B e req db =
     (let (cs, db1) = find_docs Categories None db
      in (respond 200 (Docs cs), db1))"

definition get_category_B :: handler where
  "get_category_B e req db =
     (case objectId_of_string (param_id req) of
        Inl err \<Rightarrow> (respond 500 (Error ''Failed to fetch category''), db)
      | Inr oid \<Rightarrow>
          (let (category, db1) = findOne Categories ''_id'' oid db
           in case category of
                None \<Rightarrow> (respond 404 (Error ''Category not found''), db1)
              | Some c \<Rightarrow> (respond 200 (Doc c), db1)))"

definition new_category_B :: "env \<Rightarrow> doc \<Rightarrow> jsobj" where
  "new_category_B e b =
     [(''name'', map_of b ''name''),
      (''description'', map_of b ''description''),
      (''image'', map_of b ''image''),
      (''isActive'', (case map_of b ''isActive'' of None \<Rightarrow> Some (JBool True) | Some v \<Rightarrow> Some v)),
      (''createdAt'', Some (JDate (clock e))),
      (''updatedAt'', Some (JDate (clock e)))]"

definition post_categories_B :: handler where
  "post_categories_B e req db =
     (if \<not> truthy_opt (map_of (body req) ''name'')
      then (respond 400 (Error ''Category name required''), db)
      else
        (let category = new_category_B e (body req);
             (result, db1) = insertOne Categories (driver_oid e) (bson_doc category) db
         in case result of
              Inl err \<Rightarrow> (respond 500 (Error ''Failed to create category''), db1)
            | Inr insertedId \<Rightarrow>
                (respond 201 (Doc (json_doc (category @ [(''_id'', Some insertedId)]))), db1)))"

definition put_category_B :: handler where
  "put_category_B e req db =
     (let updateData = category_updateData e (body req)
      in case objectId_of_string (param_id req) of
           Inl err \<Rightarrow> (respond 500 (Error ''Failed to update category''), db)
         | Inr oid \<Rightarrow>
             (let (result, db1) = updateOne Categories ''_id'' oid updateData db
              in case result of
                   Inl err \<Rightarrow> (respond 500 (Error ''Failed to update category''), db1)
                 | Inr matchedCount \<Rightarrow>
                     if matchedCount = 0 then (respond 404 (Error ''Category not found''), db1)
                     else
                       (let (updatedCategory, db2) = findOne Categories ''_id'' oid db1
                        in case updatedCategory of
                             None \<Rightarrow> (respond 200 Null, db2)
                           | Some c \<Rightarrow> (respond 200 (Doc c), db2))))"

text \<open>The cascade filters on the route parameter itself, a string.\<close>

definition delete_category_B :: handler where
  "delete_category_B e req db =
     (case objectId_of_string (param_id req) of
        Inl err \<Rightarrow> (respond 500 (Error ''Failed to delete category''), db)
      | Inr oid \<Rightarrow>
          (let (deletedCount, db1) = deleteOne Categories ''_id'' oid db
           in if deletedCount = 0 then (respond 404 (Error ''Category not found''), db1)
              else
                (let (n, db2) = deleteMany Subcategories ''categoryId'' (JStr (param_id req)) db1
                 in (respond 200 (Message ''Category deleted successfully''), db2))))"

definition get_subcategories_B :: handler where
  "get_subcategories_B e req db =
     (let (ss, db1) = find_docs Subcategories (subcategory_query (query_categoryId req)) db
      in (respond 200 (Docs ss), db1))"

definition get_subcategory_B :: handler where
  "get_subcategory_B e req db =
     (case objectId_of_string (param_id req) of
        Inl err \<Rightarrow> (respond 500 (Error ''Failed to fetch subcategory''), db)
      | Inr oid \<Rightarrow>
          (let (subcategory, db1) = findOne Subcategories ''_id'' oid db
           in case subcategory of
                None \<Rightarrow> (respond 404 (Error ''Subcategory not found''), db1)
              | Some s \<Rightarrow> (respond 200 (Doc s), db1)))"

definition new_subcategory_B :: "env \<Rightarrow> doc \<Rightarrow> jsobj" where
  "new_subcategory_B e b =
     [(''name'', map_of b ''name''),
      (''description'', map_of b ''description''),
      (''categoryId'', map_of b ''categoryId''),
      (''image'', map_of b ''image''),
      (''isActive'', (case map_of b ''isActive'' of None \<Rightarrow> Some (JBool True) | Some v \<Rightarrow> Some v)),
      (''createdAt'', Some (JDate (clock e))),
      (''updatedAt'', Some (JDate (clock e)))]"

definition post_subcategories_B :: handler where
  "post_subcategories_B e req db =
     (if \<not> truthy_opt (map_of (body req) ''name'')
      then (respond 400 (Error ''Subcategory name required''), db)
      else if \<not> truthy_opt (map_of (body req) ''categoryId'')
      then (respond 400 (Error ''Category ID required''), db)
      else
        (case objectId_of e (field (body req) ''categoryId'') of
           Inl err \<Rightarrow> (respond 500 (Error ''Failed to create subcategory''), db)
         | Inr oid \<Rightarrow>
             (let (category, db1) = findOne Categories ''_id'' oid db
              in case category of
                   None \<Rightarrow> (respond 400 (Error ''Parent category not found''), db1)
                 | Some c \<Rightarrow>
                     (let subcategory = new_subcategory_B e (body req);
                          (result, db2) =
                            insertOne Subcategories (driver_oid e) (bson_doc subcategory) db1
                      in case result of
                           Inl err \<Rightarrow> (respond 500 (Error ''Failed to create subcategory''), db2)
                         | Inr insertedId \<Rightarrow>
                             (respond 201
                                (Doc (json_doc (subcategory @ [(''_id'', Some insertedId)]))),
                              db2)))))"

definition write_subcategory_B :: "doc \<Rightarrow> request \<Rightarrow> database \<Rightarrow> response \<times> database" where
  "write_subcategory_B updateData req db =
     (case objectId_of_string (param_id req) of
        Inl err \<Rightarrow> (respond 500 (Error ''Failed to update subcategory''), db)
      | Inr oid \<Rightarrow>
          (let (result, db1) = updateOne Subcategories ''_id'' oid updateData db
           in case result of
                Inl err \<Rightarrow> (respond 500 (Error ''Failed to update subcategory''), db1)
              | Inr matchedCount \<Rightarrow>
                  if matchedCount = 0 then (respond 404 (Error ''Subcategory not found''), db1)
                  else
                    (let (updatedSubcategory, db2) = findOne Subcategories ''_id'' oid db1
                     in case updatedSubcategory of
                          None \<Rightarrow> (respond 200 Null, db2)
                        | Some s \<Rightarrow> (respond 200 (Doc s), db2))))"

definition put_subcategory_B :: handler where
  "put_subcategory_B e req db =
     (let updateData = subcategory_updateData e (body req)
      in case map_of (body req) ''categoryId'' of
           None \<Rightarrow> write_subcategory_B updateData req db
         | Some categoryId \<Rightarrow>
             (case objectId_of e categoryId of
                Inl err \<Rightarrow> (respond 500 (Error ''Failed to update subcategory''), db)
              | Inr oid \<Rightarrow>
                  (let (category, db1) = findOne Categories ''_id'' oid db
                   in case category of
                        None \<Rightarrow> (respond 400 (Error ''Parent category not found''), db1)
                      | Some c \<Rightarrow>
                          write_subcategory_B (updateData @ [(''categoryId'', categoryId)]) req db1)))"

definition delete_subcategory_B :: handler where
  "delete_subcategory_B e req db =
     (case objectId_of_string (param_id req) of
        Inl err \<Rightarrow> (respond 500 (Error ''Failed to delete subcategory''), db)
      | Inr oid \<Rightarrow>
          (let (deletedCount, db1) = deleteOne Subcategories ''_id'' oid db
           in if deletedCount = 0 then (respond 404 (Error ''Subcategory not found''), db1)
              else (respond 200 (Message ''Subcategory deleted successfully''), db1)))"

fun handler_B :: "endpoint \<Rightarrow> handler" where
  "handler_B GetCategories = get_categories_B"
| "handler_B GetCategory = get_category_B"
| "handler_B PostCategories = post_categories_B"
| "handler_B PutCategory = put_category_B"
| "handler_B DeleteCategory = delete_category_B"
| "handler_B GetSubcategories = get_subcategories_B"
| "handler_B GetSubcategory = get_subcategory_B"
| "handler_B PostSubcategories = post_subcategories_B"
| "handler_B PutSubcategory = put_subcategory_B"
| "handler_B DeleteSubcategory = delete_subcategory_B"

fun serve_B :: "endpoint \<Rightarrow> handler" where
  "serve_B GetCategories = get_categories_B"
| "serve_B GetCategory = get_category_B"
| "serve_B PostCategories = authenticateToken_B post_categories_B"
| "serve_B PutCategory = authenticateToken_B put_category_B"
| "serve_B DeleteCategory = authenticateToken_B delete_category_B"
| "serve_B GetSubcategories = get_subcategories_B"
| "serve_B GetSubcategory = get_subcategory_B"
| "serve_B PostSubcategories = authenticateToken_B post_subcategories_B"
| "serve_B PutSubcategory = authenticateToken_B put_subcategory_B"
| "serve_B DeleteSubcategory = authenticateToken_B delete_subcategory_B"

section \<open>Start-up\<close>

text \<open>
  Start-up as the list of what the process does, in order. \<open>connects\<close> says whether
  \<open>client.connect()\<close> succeeds. Variant A listens first and connects in the callback of
  \<open>listen\<close>; variant B checks the secret when the module loads, connects, builds the two
  unique indexes (an index that cannot be built is skipped: \<open>.catch(() => {})\<close>) and
  only then listens.
\<close>

datatype startup_event = Listen | Connected | Exit nat

definition connectDB_A :: "bool \<Rightarrow> database \<Rightarrow> startup_event list \<times> database" where
  "connectDB_A connects db = (if connects then ([Connected], db) else ([Exit 1], db))"

definition start_A :: "env \<Rightarrow> bool \<Rightarrow> database \<Rightarrow> startup_event list \<times> database" where
  "start_A e connects db =
     (let (evs, db1) = connectDB_A connects db in (Listen # evs, db1))"

definition connectDB_B :: "bool \<Rightarrow> database \<Rightarrow> startup_event list \<times> database" where
  "connectDB_B connects db =
     (if connects
      then (let (r1, db1) = createIndex_name Categories db;
                (r2, db2) = createIndex_name Subcategories db1
            in ([Connected], db2))
      else ([Exit 1], db))"

definition start_B :: "env \<Rightarrow> bool \<Rightarrow> database \<Rightarrow> startup_event list \<times> database" where
  "start_B e connects db =
     (if \<not> (case JWT_SECRET e of None \<Rightarrow> False | Some s \<Rightarrow> s \<noteq> [])
      then ([Exit 1], db)
      else
        (let (evs, db1) = connectDB_B connects db
         in if evs = [Connected] then (evs @ [Listen], db1) else (evs, db1)))"

section \<open>Notions used to state the properties\<close>

text \<open>The values JavaScript treats as false, among those a JSON body can carry.\<close>

definition falsy_values :: "jsval list" where
  "falsy_values = [JNull, JBool False, JNum 0, JStr []]"

definition category_names :: "database \<Rightarrow> jsval list" where
  "category_names db = map (\<lambda>d. field d ''name'') (categories db)"

text \<open>The categories carry the unique index and their names are pairwise different.\<close>

definition names_indexed :: "database \<Rightarrow> bool" where
  "names_indexed db = (categories_name_unique db \<and> distinct (category_names db))"

text \<open>The parent check of a subcategory update lets the request through.\<close>

definition parent_check_passes :: "request \<Rightarrow> database \<Rightarrow> bool" where
  "parent_check_passes req db =
     (case map_of (body req) ''categoryId'' of
        None \<Rightarrow> True
      | Some cid \<Rightarrow> (\<exists>c \<in> set (categories db). matches ''_id'' cid c))"



section \<open>A concrete database, environment and requests\<close>

text \<open>
  The identity of the source's token test route, a stand-in for the token library that
  knows one token for that identity, and a small database: one category with two
  subcategories, first with the string identifiers of variant A, then with the
  ObjectIds of variant B.
\<close>

definition demo_user :: doc where
  "demo_user = [(''_id'', JStr ''test123''), (''email'', JStr ''test@nesswear.com'')]"

definition demo_payload :: doc where
  "demo_payload = [(''userId'', JStr ''test123''), (''email'', JStr ''test@nesswear.com'')]"

definition demo_sign :: "doc \<Rightarrow> string option \<Rightarrow> nat \<Rightarrow> nat \<Rightarrow> js_error + string" where
  "demo_sign p sec ttl now =
     (if p = demo_payload \<and> sec = Some ''secret'' \<and> ttl = 2592000 \<and> now = 5
      then Inr ''good'' else Inl JsonWebTokenError)"

definition demo_verify :: "string \<Rightarrow> string option \<Rightarrow> nat \<Rightarrow> js_error + doc" where
  "demo_verify tok sec now =
     (if tok = ''good'' \<and> sec = Some ''secret'' \<and> now < 2592005
      then Inr (demo_payload @ [(''iat'', JNum 5), (''exp'', JNum 2592005)])
      else Inl JsonWebTokenError)"

definition demo_env :: env where
  "demo_env =
     \<lparr>clock = 5000, JWT_SECRET = Some ''secret'',
      driver_oid = ''65a1b2c3d4e5f60718293a4b'', ctor_oid = ''65a1b2c3d4e5f60718293a4c'',
      jwt_sign = demo_sign, jwt_verify = demo_verify\<rparr>"

definition demo_category :: doc where
  "demo_category =
     [(''_id'', JStr ''100''), (''name'', JStr ''Hoodies''), (''description'', JNull),
      (''image'', JNull), (''isActive'', JBool True),
      (''createdAt'', JDate 100), (''updatedAt'', JDate 100)]"

definition demo_subcategory :: "string \<Rightarrow> string \<Rightarrow> doc" where
  "demo_subcategory i n =
     [(''_id'', JStr i), (''name'', JStr n), (''description'', JNull),
      (''categoryId'', JStr ''100''), (''image'', JNull), (''isActive'', JBool True),
      (''createdAt'', JDate 200), (''updatedAt'', JDate 200)]"

definition demo_db :: database where
  "demo_db =
     \<lparr>categories = [demo_category],
      subcategories = [demo_subcategory ''200'' ''Zip Hoodies'', demo_subcategory ''201'' ''Pullovers''],
      categories_name_unique = False, subcategories_name_unique = False, calls = []\<rparr>"

definition demo_category_B :: doc where
  "demo_category_B =
     [(''_id'', JOid ''65a1b2c3d4e5f60718293a00''), (''name'', JStr ''Hoodies''),
      (''description'', JNull), (''image'', JNull), (''isActive'', JBool True),
      (''createdAt'', JDate 100), (''updatedAt'', JDate 100)]"

definition demo_subcategory_B :: doc where
  "demo_subcategory_B =
     [(''_id'', JOid ''65a1b2c3d4e5f60718293a01''), (''name'', JStr ''Zip Hoodies''),
      (''description'', JNull), (''categoryId'', JStr ''65a1b2c3d4e5f60718293a00''),
      (''image'', JNull), (''isActive'', JBool True),
      (''createdAt'', JDate 200), (''updatedAt'', JDate 200)]"

definition demo_db_B :: database where
  "demo_db_B =
     \<lparr>categories = [demo_category_B], subcategories = [demo_subcategory_B],
      categories_name_unique = True, subcategories_name_unique = True, calls = []\<rparr>"

definition demo_req :: request where
  "demo_req =
     \<lparr>authorization = None, param_id = ''100'', query_categoryId = None, body = [],
      user = None\<rparr>"

section \<open>Properties of the gateway and of the handlers\<close>

subsection \<open>Lists, identifiers and the Authorization header\<close>

lemma first_index_None: "first_index P xs = None \<longleftrightarrow> (\<forall>x \<in> set xs. \<not> P x)"
  by (induction xs) auto

lemma first_index_Some:
  "first_index P xs = Some i \<Longrightarrow> i < length xs \<and> P (xs ! i) \<and> (\<forall>j < i. \<not> P (xs ! j))"
proof (induction xs arbitrary: i)
  case Nil
  then show ?case by simp
next
  case (Cons x xs)
  show ?case
  proof (cases "P x")
    case True
    with Cons.prems show ?thesis by simp
  next
    case False
    with Cons.prems obtain k where k: "first_index P xs = Some k" "i = Suc k"
      by auto
    from Cons.IH [OF k(1)] False k(2) show ?thesis
      by (auto simp: nth_Cons split: nat.splits)
  qed
qed

lemma string_of_nat_nonempty: "string_of_nat n \<noteq> []"
  by (subst string_of_nat.simps) simp

lemma split_on_no_sep: "c \<notin> set t \<Longrightarrow> split_on c t = [t]"
  by (induction t) auto

lemma split_on_prefix:
  "c \<notin> set p \<Longrightarrow> split_on c (p @ c # t) = p # split_on c t"
  by (induction p) auto

lemma bearer_split:
  "CHR '' '' \<notin> set t \<Longrightarrow> split_on CHR '' '' (''Bearer '' @ t) = [''Bearer'', t]"
  using split_on_prefix [of "CHR '' ''" "''Bearer''" t] split_on_no_sep [of "CHR '' ''" t]
  by simp

lemma bearer_token_A_Bearer:
  "CHR '' '' \<notin> set t \<Longrightarrow> bearer_token_A (Some (''Bearer '' @ t)) = Some t"
  using bearer_split [of t] by (simp add: bearer_token_A_def nth_opt_def)

lemma bearer_token_B_Bearer:
  "CHR '' '' \<notin> set t \<Longrightarrow> bearer_token_B (Some (''Bearer '' @ t)) = Some t"
  using bearer_split [of t] by (simp add: bearer_token_B_def nth_opt_def)

lemma check_token_cases:
  "check_token tok h e req db =
     (if tok = None \<or> tok = Some [] then (respond 401 (Error ''Access token required''), db)
      else case verifyToken e (the tok) of
             None \<Rightarrow> (respond 403 (Error ''Invalid or expired token''), db)
           | Some d \<Rightarrow> h e (req\<lparr>user := Some d\<rparr>) db)"
  by (auto simp: check_token_def split: option.splits)

lemma serve_A_mutating:
  "mutating ep \<Longrightarrow> serve_A ep = authenticateToken_A (handler_A ep)"
  by (cases ep) simp_all

lemma serve_B_mutating:
  "mutating ep \<Longrightarrow> serve_B ep = authenticateToken_B (handler_B ep)"
  by (cases ep) simp_all

lemma falsy_not_truthy: "v \<in> set falsy_values \<Longrightarrow> \<not> truthy v"
  by (auto simp: falsy_values_def)

subsection \<open>Required fields, listing, authentication and start-up\<close>

text \<open>
  Claim C10. The required-field check of the create handlers tests falsiness, not
  presence: when \<open>name\<close> is absent or is null, false, zero or the empty string, both
  create handlers answer 400 and return the database as it was, log included, so no
  database operation ran; the same holds for a subcategory whose \<open>categoryId\<close> is
  absent or falsy.
\<close>

theorem required_field_falsy_A:
  "(map_of (body req) ''name'' = None \<or> (\<exists>v \<in> set falsy_values. map_of (body req) ''name'' = Some v)
      \<longrightarrow> post_categories_A e req db = (respond 400 (Error ''Category name is required''), db)
        \<and> post_subcategories_A e req db = (respond 400 (Error ''Subcategory name is required''), db))
   \<and> (truthy_opt (map_of (body req) ''name'')
       \<and> (map_of (body req) ''categoryId'' = None
            \<or> (\<exists>v \<in> set falsy_values. map_of (body req) ''categoryId'' = Some v))
      \<longrightarrow> post_subcategories_A e req db = (respond 400 (Error ''Category ID is required''), db))"
  by (auto simp: post_categories_A_def post_subcategories_A_def truthy_opt_def
      dest: falsy_not_truthy)

text \<open>
  Claim C9. Listing subcategories with the query parameter \<open>categoryId\<close> absent or
  equal to the empty string returns the whole collection; the equality filter is
  applied for a non-empty parameter only. Both variants.
\<close>

theorem list_filter_truthy:
  "(query_categoryId req = None \<or> query_categoryId req = Some []
      \<longrightarrow> get_subcategories_A e req db
            = (respond 200 (Docs (subcategories db)), logged (Find Subcategories) db)
        \<and> get_subcategories_B e req db
            = (respond 200 (Docs (subcategories db)), logged (Find Subcategories) db))
   \<and> (query_categoryId req = Some s \<and> s \<noteq> []
      \<longrightarrow> get_subcategories_A e req db
            = (respond 200 (Docs (filter (\<lambda>d. field d ''categoryId'' = JStr s) (subcategories db))),
               logged (Find Subcategories) db)
        \<and> get_subcategories_B e req db
            = (respond 200 (Docs (filter (\<lambda>d. field d ''categoryId'' = JStr s) (subcategories db))),
               logged (Find Subcategories) db))"
  by (auto simp: get_subcategories_A_def get_subcategories_B_def subcategory_query_def
      find_docs_def collection_def matches_def [abs_def])

text \<open>
  Claim C5. On every mutating route of both variants: without an \<open>Authorization\<close>
  header, or with one that holds no token after \<open>Bearer\<close>, the answer is 401 and
  the database is returned untouched (no operation in its log); with \<open>Bearer t\<close> where the library rejects \<open>t\<close> the answer is 403, again
  with the database untouched; with \<open>Bearer t\<close> where the library accepts \<open>t\<close> the
  route's handler runs, with \<open>req.user\<close> set. In every case the handler runs only
  if some token was verified.
\<close>

theorem authentication_gate:
  assumes "mutating ep"
  shows "(authorization req = None \<or> authorization req = Some []
          \<or> authorization req = Some ''Bearer'' \<or> authorization req = Some ''Bearer ''
            \<longrightarrow> serve_A ep e req db = (respond 401 (Error ''Access token required''), db)
              \<and> serve_B ep e req db = (respond 401 (Error ''Access token required''), db))
       \<and> (authorization req = Some (''Bearer '' @ t) \<and> t \<noteq> [] \<and> CHR '' '' \<notin> set t
            \<and> jwt_verify e t (JWT_SECRET e) (seconds e) = Inl err
            \<longrightarrow> serve_A ep e req db = (respond 403 (Error ''Invalid or expired token''), db)
              \<and> serve_B ep e req db = (respond 403 (Error ''Invalid or expired token''), db))
       \<and> (authorization req = Some (''Bearer '' @ t) \<and> t \<noteq> [] \<and> CHR '' '' \<notin> set t
            \<and> jwt_verify e t (JWT_SECRET e) (seconds e) = Inr d
            \<longrightarrow> serve_A ep e req db = handler_A ep e (req\<lparr>user := Some d\<rparr>) db
              \<and> serve_B ep e req db = handler_B ep e (req\<lparr>user := Some d\<rparr>) db)
       \<and> (serve_A ep e req db = (respond 401 (Error ''Access token required''), db)
            \<or> serve_A ep e req db = (respond 403 (Error ''Invalid or expired token''), db)
            \<or> (\<exists>t' d'. jwt_verify e t' (JWT_SECRET e) (seconds e) = Inr d'
                  \<and> serve_A ep e req db = handler_A ep e (req\<lparr>user := Some d'\<rparr>) db))
       \<and> (serve_B ep e req db = (respond 401 (Error ''Access token required''), db)
            \<or> serve_B ep e req db = (respond 403 (Error ''Invalid or expired token''), db)
            \<or> (\<exists>t' d'. jwt_verify e t' (JWT_SECRET e) (seconds e) = Inr d'
                  \<and> serve_B ep e req db = handler_B ep e (req\<lparr>user := Some d'\<rparr>) db))"
proof -
  have A: "serve_A ep = authenticateToken_A (handler_A ep)"
    and B: "serve_B ep = authenticateToken_B (handler_B ep)"
    using assms by (simp_all add: serve_A_mutating serve_B_mutating)
  have none: "authorization req = None \<or> authorization req = Some []
          \<or> authorization req = Some ''Bearer'' \<or> authorization req = Some ''Bearer '' \<longrightarrow>
      serve_A ep e req db = (respond 401 (Error ''Access token required''), db)
      \<and> serve_B ep e req db = (respond 401 (Error ''Access token required''), db)"
    by (auto simp: A B authenticateToken_A_def authenticateToken_B_def check_token_def
        bearer_token_A_def bearer_token_B_def nth_opt_def)
  have tokA: "bearer_token_A (authorization req) = Some t"
    if "authorization req = Some (''Bearer '' @ t)" "CHR '' '' \<notin> set t"
    using that bearer_token_A_Bearer [of t] by simp
  have tokB: "bearer_token_B (authorization req) = Some t"
    if "authorization req = Some (''Bearer '' @ t)" "CHR '' '' \<notin> set t"
    using that bearer_token_B_Bearer [of t] by simp
  have bad: "authorization req = Some (''Bearer '' @ t) \<and> t \<noteq> [] \<and> CHR '' '' \<notin> set t
            \<and> jwt_verify e t (JWT_SECRET e) (seconds e) = Inl err
            \<longrightarrow> serve_A ep e req db = (respond 403 (Error ''Invalid or expired token''), db)
              \<and> serve_B ep e req db = (respond 403 (Error ''Invalid or expired token''), db)"
  proof (intro impI, elim conjE)
    assume h: "authorization req = Some (''Bearer '' @ t)" "t \<noteq> []" "CHR '' '' \<notin> set t"
      "jwt_verify e t (JWT_SECRET e) (seconds e) = Inl err"
    show "serve_A ep e req db = (respond 403 (Error ''Invalid or expired token''), db)
          \<and> serve_B ep e req db = (respond 403 (Error ''Invalid or expired token''), db)"
      unfolding A B authenticateToken_A_def authenticateToken_B_def
        tokA [OF h(1) h(3)] tokB [OF h(1) h(3)]
      using h(2) h(4) by (simp add: check_token_def verifyToken_def)
  qed
  have good: "authorization req = Some (''Bearer '' @ t) \<and> t \<noteq> [] \<and> CHR '' '' \<notin> set t
            \<and> jwt_verify e t (JWT_SECRET e) (seconds e) = Inr d
            \<longrightarrow> serve_A ep e req db = handler_A ep e (req\<lparr>user := Some d\<rparr>) db
              \<and> serve_B ep e req db = handler_B ep e (req\<lparr>user := Some d\<rparr>) db"
  proof (intro impI, elim conjE)
    assume h: "authorization req = Some (''Bearer '' @ t)" "t \<noteq> []" "CHR '' '' \<notin> set t"
      "jwt_verify e t (JWT_SECRET e) (seconds e) = Inr d"
    show "serve_A ep e req db = handler_A ep e (req\<lparr>user := Some d\<rparr>) db
          \<and> serve_B ep e req db = handler_B ep e (req\<lparr>user := Some d\<rparr>) db"
      unfolding A B authenticateToken_A_def authenticateToken_B_def
        tokA [OF h(1) h(3)] tokB [OF h(1) h(3)]
      using h(2) h(4) by (simp add: check_token_def verifyToken_def)
  qed
  have onlyA: "serve_A ep e req db = (respond 401 (Error ''Access token required''), db)
            \<or> serve_A ep e req db = (respond 403 (Error ''Invalid or expired token''), db)
            \<or> (\<exists>t' d'. jwt_verify e t' (JWT_SECRET e) (seconds e) = Inr d'
                  \<and> serve_A ep e req db = handler_A ep e (req\<lparr>user := Some d'\<rparr>) db)"
    unfolding A authenticateToken_A_def check_token_def verifyToken_def
    by (auto split: option.splits sum.splits)
  have onlyB: "serve_B ep e req db = (respond 401 (Error ''Access token required''), db)
            \<or> serve_B ep e req db = (respond 403 (Error ''Invalid or expired token''), db)
            \<or> (\<exists>t' d'. jwt_verify e t' (JWT_SECRET e) (seconds e) = Inr d'
                  \<and> serve_B ep e req db = handler_B ep e (req\<lparr>user := Some d'\<rparr>) db)"
    unfolding B authenticateToken_B_def check_token_def verifyToken_def
    by (auto split: option.splits sum.splits)
  from none bad good onlyA onlyB show ?thesis by blast
qed

text \<open>
  Claim C6, as amended. Variant B stops with exit code 1, before connecting and before
  listening, when the signing secret is unset or empty. Variant A makes no such check:
  whatever the secret, it listens, then connects, and exits only if the connection fails.
\<close>

theorem startup_secret:
  "(JWT_SECRET e = None \<or> JWT_SECRET e = Some [] \<longrightarrow> start_B e connects db = ([Exit 1], db))
   \<and> start_A e True db = ([Listen, Connected], db)
   \<and> start_A e False db = ([Listen, Exit 1], db)"
  by (auto simp: start_B_def start_A_def connectDB_A_def)

subsection \<open>The unique index is kept by every operation\<close>

lemmas gateway_defs =
  collection_def put_collection_def name_unique_def logged_def

lemma names_indexed_logged [simp]: "names_indexed (logged c db) = names_indexed db"
  by (simp add: names_indexed_def category_names_def logged_def)

lemma names_indexed_find_docs: "names_indexed db \<Longrightarrow> names_indexed (snd (find_docs c q db))"
  by (simp add: find_docs_def)

lemma names_indexed_findOne: "names_indexed db \<Longrightarrow> names_indexed (snd (findOne c k v db))"
  by (simp add: findOne_def)

lemma names_indexed_insertOne:
  "names_indexed db \<Longrightarrow> names_indexed (snd (insertOne c fresh d db))"
  unfolding insertOne_def Let_def
  by (cases c)
     (auto simp: names_indexed_def category_names_def gateway_defs with_id_def field_def
           split: option.splits)

lemma distinct_remove_nth:
  "distinct (map f xs) \<Longrightarrow> distinct (map f (take i xs @ drop (Suc i) xs))"
proof (induction xs arbitrary: i)
  case Nil
  then show ?case by simp
next
  case (Cons x xs)
  show ?case
  proof (cases i)
    case 0
    with Cons.prems show ?thesis by simp
  next
    case (Suc j)
    from Cons.prems have "distinct (map f xs)" and nx: "f x \<notin> f ` set xs" by auto
    from Cons.IH [OF this(1), of j] have "distinct (map f (take j xs @ drop (Suc j) xs))" .
    moreover have "f x \<notin> f ` set (take j xs @ drop (Suc j) xs)"
      using nx by (auto dest: in_set_takeD in_set_dropD)
    ultimately show ?thesis using Suc by auto
  qed
qed

lemma distinct_replace_nth:
  assumes "distinct (map f xs)" "i < length xs"
    and "\<forall>x \<in> set (take i xs @ drop (Suc i) xs). f x \<noteq> f y"
  shows "distinct (map f (xs[i := y]))"
proof -
  have eq: "xs[i := y] = take i xs @ y # drop (Suc i) xs"
    using assms(2) by (simp add: upd_conv_take_nth_drop)
  have "distinct (map f (take i xs @ drop (Suc i) xs))"
    using assms(1) by (rule distinct_remove_nth)
  with assms(3) show ?thesis
    unfolding eq by auto
qed

lemma names_indexed_updateOne:
  "names_indexed db \<Longrightarrow> names_indexed (snd (updateOne c k v sets db))"
proof (cases "first_index (matches k v) (collection c db)")
  case None
  assume "names_indexed db"
  with None show ?thesis by (simp add: updateOne_def)
next
  case (Some i)
  assume inv: "names_indexed db"
  from first_index_Some [OF Some] have i: "i < length (collection c db)" by simp
  show ?thesis
  proof (cases c)
    case Categories
    with inv i Some show ?thesis
      unfolding updateOne_def Let_def
      by (auto simp: names_indexed_def category_names_def gateway_defs
               intro!: distinct_replace_nth)
  next
    case Subcategories
    with inv Some show ?thesis
      unfolding updateOne_def Let_def
      by (auto simp: names_indexed_def category_names_def gateway_defs)
  qed
qed

lemma names_indexed_deleteOne:
  "names_indexed db \<Longrightarrow> names_indexed (snd (deleteOne c k v db))"
proof (cases "first_index (matches k v) (collection c db)")
  case None
  assume "names_indexed db"
  with None show ?thesis by (simp add: deleteOne_def)
next
  case (Some i)
  assume inv: "names_indexed db"
  show ?thesis
  proof (cases c)
    case Categories
    from inv have "distinct (map (\<lambda>d. field d ''name'') (categories db))"
      by (simp add: names_indexed_def category_names_def)
    from distinct_remove_nth [OF this, of i] inv Some Categories show ?thesis
      unfolding deleteOne_def Let_def
      by (simp add: names_indexed_def category_names_def gateway_defs)
  next
    case Subcategories
    with inv Some show ?thesis
      unfolding deleteOne_def Let_def
      by (simp add: names_indexed_def category_names_def gateway_defs)
  qed
qed

lemma names_indexed_deleteMany_sub:
  "names_indexed db \<Longrightarrow> names_indexed (snd (deleteMany Subcategories k v db))"
  by (simp add: deleteMany_def Let_def names_indexed_def category_names_def gateway_defs)

lemma names_indexed_steps:
  "find_docs c q db = (xs, db1) \<Longrightarrow> names_indexed db \<Longrightarrow> names_indexed db1"
  "findOne c k v db = (r1, db1) \<Longrightarrow> names_indexed db \<Longrightarrow> names_indexed db1"
  "insertOne c fresh d db = (r2, db1) \<Longrightarrow> names_indexed db \<Longrightarrow> names_indexed db1"
  "updateOne c k v sets db = (r3, db1) \<Longrightarrow> names_indexed db \<Longrightarrow> names_indexed db1"
  "deleteOne c k v db = (n, db1) \<Longrightarrow> names_indexed db \<Longrightarrow> names_indexed db1"
  "deleteMany Subcategories k v db = (n, db1) \<Longrightarrow> names_indexed db \<Longrightarrow> names_indexed db1"
  using names_indexed_find_docs [of db c q] names_indexed_findOne [of db c k v]
    names_indexed_insertOne [of db c fresh d] names_indexed_updateOne [of db c k v sets]
    names_indexed_deleteOne [of db c k v] names_indexed_deleteMany_sub [of db k v]
  by simp_all

lemma names_indexed_write_subcategory_B:
  "names_indexed db \<Longrightarrow> names_indexed (snd (write_subcategory_B u req db))"
  by (auto simp: write_subcategory_B_def Let_def
      split: prod.splits sum.splits option.splits if_splits dest: names_indexed_steps)

lemma names_indexed_handler_B:
  "names_indexed db \<Longrightarrow> names_indexed (snd (handler_B ep e req db))"
proof (cases ep)
  case GetCategories
  assume "names_indexed db"
  then show ?thesis unfolding GetCategories
    by (auto simp: get_categories_B_def split: prod.splits dest: names_indexed_steps)
next
  case GetCategory
  assume "names_indexed db"
  then show ?thesis unfolding GetCategory
    by (auto simp: get_category_B_def split: prod.splits sum.splits option.splits
        dest: names_indexed_steps)
next
  case PostCategories
  assume "names_indexed db"
  then show ?thesis unfolding PostCategories
    by (auto simp: post_categories_B_def Let_def split: prod.splits sum.splits
        dest: names_indexed_steps)
next
  case PutCategory
  assume "names_indexed db"
  then show ?thesis unfolding PutCategory
    by (auto simp: put_category_B_def Let_def
        split: prod.splits sum.splits option.splits dest: names_indexed_steps)
next
  case DeleteCategory
  assume "names_indexed db"
  then show ?thesis unfolding DeleteCategory
    by (auto simp: delete_category_B_def Let_def
        split: prod.splits sum.splits dest: names_indexed_steps)
next
  case GetSubcategories
  assume "names_indexed db"
  then show ?thesis unfolding GetSubcategories
    by (auto simp: get_subcategories_B_def split: prod.splits dest: names_indexed_steps)
next
  case GetSubcategory
  assume "names_indexed db"
  then show ?thesis unfolding GetSubcategory
    by (auto simp: get_subcategory_B_def split: prod.splits sum.splits option.splits
        dest: names_indexed_steps)
next
  case PostSubcategories
  assume "names_indexed db"
  then show ?thesis unfolding PostSubcategories
    by (auto simp: post_subcategories_B_def Let_def
        split: prod.splits sum.splits option.splits dest: names_indexed_steps)
next
  case PutSubcategory
  assume inv: "names_indexed db"
  show ?thesis unfolding PutSubcategory
    using inv names_indexed_write_subcategory_B
    by (auto simp: put_subcategory_B_def Let_def
        split: prod.splits sum.splits option.splits dest: names_indexed_steps)
next
  case DeleteSubcategory
  assume "names_indexed db"
  then show ?thesis unfolding DeleteSubcategory
    by (auto simp: delete_subcategory_B_def Let_def
        split: prod.splits sum.splits dest: names_indexed_steps)
qed

lemma names_indexed_serve_B:
  assumes "names_indexed db"
  shows "names_indexed (snd (serve_B ep e req db))"
proof (cases "mutating ep")
  case True
  have "serve_B ep e req db = (respond 401 (Error ''Access token required''), db)
        \<or> serve_B ep e req db = (respond 403 (Error ''Invalid or expired token''), db)
        \<or> (\<exists>d. serve_B ep e req db = handler_B ep e (req\<lparr>user := Some d\<rparr>) db)"
    unfolding serve_B_mutating [OF True] authenticateToken_B_def check_token_def
    by (auto split: option.splits)
  with assms names_indexed_handler_B show ?thesis by auto
next
  case False
  then have "serve_B ep = handler_B ep" by (cases ep) simp_all
  with assms names_indexed_handler_B show ?thesis by simp
qed

lemma connectDB_B_index:
  "distinct (category_names db) \<Longrightarrow> names_indexed (snd (connectDB_B True db))"
  by (simp add: connectDB_B_def createIndex_name_def Let_def names_indexed_def
      category_names_def gateway_defs split: prod.splits)

lemma post_categories_B_duplicate:
  assumes "categories_name_unique db" "truthy_opt (map_of (body req) ''name'')"
    and "\<exists>c \<in> set (categories db). field c ''name'' = field (body req) ''name''"
  shows "post_categories_B e req db
         = (respond 500 (Error ''Failed to create category''), logged (InsertOne Categories) db)"
proof -
  have "field (with_id (driver_oid e) (bson_doc (new_category_B e (body req)))) ''name''
        = field (body req) ''name''"
    using assms(2)
    by (auto simp: with_id_def new_category_B_def field_def truthy_opt_def split: option.splits)
  with assms show ?thesis
    unfolding post_categories_B_def insertOne_def Let_def
    by (auto simp: gateway_defs)
qed

lemma post_categories_A_accepts:
  assumes "\<not> categories_name_unique db" "truthy_opt (map_of (body req) ''name'')"
    and "\<forall>c \<in> set (categories db). field c ''_id'' \<noteq> JStr (string_of_nat (clock e))"
  shows "post_categories_A e req db
         = (respond 201 (Doc (json_doc (new_category_A e (body req)))),
            (logged (InsertOne Categories) db)
              \<lparr>categories := categories db @ [bson_doc (new_category_A e (body req))]\<rparr>)"
proof -
  let ?d = "bson_doc (new_category_A e (body req))"
  have w: "with_id (driver_oid e) ?d = ?d"
    by (simp add: with_id_def new_category_A_def)
  have i: "field ?d ''_id'' = JStr (string_of_nat (clock e))"
    by (simp add: new_category_A_def field_def)
  from assms show ?thesis
    unfolding post_categories_A_def insertOne_def Let_def w i
    by (auto simp: gateway_defs string_of_nat_nonempty)
qed

subsection \<open>What the gateway operations return\<close>

lemma first_index_least:
  "\<exists>x \<in> set xs. P x \<Longrightarrow>
   \<exists>i. first_index P xs = Some i \<and> i < length xs \<and> P (xs ! i) \<and> (\<forall>j < i. \<not> P (xs ! j))"
proof -
  assume "\<exists>x \<in> set xs. P x"
  then have "first_index P xs \<noteq> None" by (simp add: first_index_None)
  then obtain i where "first_index P xs = Some i" by auto
  with first_index_Some [OF this] show ?thesis by blast
qed

lemma first_index_update:
  "first_index P xs = Some i \<Longrightarrow> P y \<Longrightarrow> first_index P (xs[i := y]) = Some i"
proof (induction xs arbitrary: i)
  case Nil
  then show ?case by simp
next
  case (Cons x xs)
  show ?case
  proof (cases "P x")
    case True
    with Cons.prems show ?thesis by simp
  next
    case False
    with Cons.prems obtain k where k: "first_index P xs = Some k" "i = Suc k" by auto
    from Cons.IH [OF k(1) Cons.prems(2)] False k(2) show ?thesis by simp
  qed
qed

lemma map_of_apply_set:
  "map_of (apply_set sets d) f
   = (case map_of (rev sets) f of Some v \<Rightarrow> Some v | None \<Rightarrow> map_of d f)"
proof (induction sets arbitrary: d)
  case Nil
  then show ?case by (simp add: apply_set_def)
next
  case (Cons s sets)
  obtain k v where s: "s = (k, v)" by (cases s)
  have "apply_set (s # sets) d = apply_set sets (AList.update k v d)"
    by (simp add: apply_set_def s)
  with Cons.IH [of "AList.update k v d"] show ?case
    by (auto simp: s update_conv' map_add_def split: option.splits)
qed

lemma field_apply_set_other:
  "k \<notin> fst ` set sets \<Longrightarrow> field (apply_set sets d) k = field d k"
proof -
  assume "k \<notin> fst ` set sets"
  then have "map_of (rev sets) k = None"
    by (simp add: map_of_eq_None_iff)
  then show ?thesis by (simp add: field_def map_of_apply_set)
qed



lemma updateOne_missing:
  "\<forall>x \<in> set (collection c db). \<not> matches k v x \<Longrightarrow>
   updateOne c k v sets db = (Inr 0, logged (UpdateOne c) db)"
  using first_index_None [of "matches k v" "collection c db"]
  by (simp add: updateOne_def)

lemma updateOne_found:
  "first_index (matches k v) (collection c db) = Some i \<Longrightarrow> \<not> name_unique c db \<Longrightarrow>
   updateOne c k v sets db
   = (Inr 1, put_collection c ((collection c db)[i := apply_set sets (collection c db ! i)])
               (logged (UpdateOne c) db))"
  by (simp add: updateOne_def Let_def)

lemma updateOne_matched:
  assumes "updateOne c k v sets db = (Inr m, db1)" "m \<noteq> 0"
  shows "\<exists>i. first_index (matches k v) (collection c db) = Some i
           \<and> db1 = put_collection c ((collection c db)[i := apply_set sets (collection c db ! i)])
                     (logged (UpdateOne c) db)"
  using assms unfolding updateOne_def Let_def
  by (auto split: option.splits if_splits)

lemma findOne_after_update:
  assumes "first_index (matches ''_id'' v) (collection c db) = Some i"
    and "''_id'' \<notin> fst ` set sets"
  shows "findOne c ''_id'' v
           (put_collection c ((collection c db)[i := apply_set sets (collection c db ! i)]) db')
         = (Some (apply_set sets (collection c db ! i)),
            logged (FindOne c)
              (put_collection c ((collection c db)[i := apply_set sets (collection c db ! i)]) db'))"
proof -
  let ?ds = "collection c db"
  let ?d' = "apply_set sets (?ds ! i)"
  from first_index_Some [OF assms(1)] have i: "i < length ?ds" "matches ''_id'' v (?ds ! i)"
    by simp_all
  have "matches ''_id'' v ?d'"
    using i(2) field_apply_set_other [OF assms(2)] by (simp add: matches_def)
  from first_index_update [OF assms(1) this] i(1) show ?thesis
    by (cases c) (simp_all add: findOne_def gateway_defs)
qed

lemma findOne_missing:
  "\<forall>x \<in> set (collection c db). \<not> matches k v x \<Longrightarrow>
   findOne c k v db = (None, logged (FindOne c) db)"
  using first_index_None [of "matches k v" "collection c db"]
  by (simp add: findOne_def)

lemma findOne_found:
  "\<exists>x \<in> set (collection c db). matches k v x \<Longrightarrow>
   \<exists>d. findOne c k v db = (Some d, logged (FindOne c) db)"
  using first_index_None [of "matches k v" "collection c db"]
  by (auto simp: findOne_def split: option.splits)

subsection \<open>Deleting a category\<close>





subsection \<open>Updating a document\<close>

lemma category_updateData_keys: "''_id'' \<notin> fst ` set (category_updateData e b)"
  by (auto simp: category_updateData_def supplied_def split: option.splits)

lemma subcategory_updateData_keys:
  "''_id'' \<notin> fst ` set (subcategory_updateData e b)"
  "''_id'' \<notin> fst ` set (subcategory_updateData e b @ [(''categoryId'', cid)])"
  by (auto simp: subcategory_updateData_def supplied_def split: option.splits)

lemma category_updateData_map:
  "map_of (rev (category_updateData e b)) f
   = (if f = ''updatedAt'' then Some (JDate (clock e))
      else if f \<in> {''name'', ''description'', ''image'', ''isActive''} then map_of b f
      else None)"
  by (auto simp: category_updateData_def supplied_def map_add_def split: option.splits)

lemma subcategory_updateData_map:
  "map_of (rev (subcategory_updateData e b)) f
   = (if f = ''updatedAt'' then Some (JDate (clock e))
      else if f \<in> {''name'', ''description'', ''image'', ''isActive''} then map_of b f
      else None)"
  by (auto simp: subcategory_updateData_def supplied_def map_add_def split: option.splits)

lemma subcategory_updateData_map_cid:
  "map_of (rev (subcategory_updateData e b @ [(''categoryId'', cid)])) f
   = (if f = ''categoryId'' then Some cid
      else if f = ''updatedAt'' then Some (JDate (clock e))
      else if f \<in> {''name'', ''description'', ''image'', ''isActive''} then map_of b f
      else None)"
  by (auto simp: subcategory_updateData_def supplied_def map_add_def split: option.splits)

text \<open>The shape of an update handler's success, for both collections.\<close>

lemma update_then_find:
  assumes "updateOne c ''_id'' v sets db = (Inr m, db1)" "m \<noteq> 0"
    and "''_id'' \<notin> fst ` set sets"
  shows "\<exists>i. first_index (matches ''_id'' v) (collection c db) = Some i
           \<and> db1 = put_collection c
                     ((collection c db)[i := apply_set sets (collection c db ! i)])
                     (logged (UpdateOne c) db)
           \<and> findOne c ''_id'' v db1
               = (Some (apply_set sets (collection c db ! i)), logged (FindOne c) db1)"
proof -
  from updateOne_matched [OF assms(1,2)] obtain i where
    i: "first_index (matches ''_id'' v) (collection c db) = Some i"
    and d: "db1 = put_collection c ((collection c db)[i := apply_set sets (collection c db ! i)])
                     (logged (UpdateOne c) db)"
    by blast
  from findOne_after_update [OF i assms(3), of "logged (UpdateOne c) db"] i d
  show ?thesis by simp
qed

lemma put_category_A_missing:
  "\<forall>c \<in> set (categories db). \<not> matches ''_id'' (JStr (param_id req)) c \<Longrightarrow>
   put_category_A e req db
   = (respond 404 (Error ''Category not found''), logged (UpdateOne Categories) db)"
  using updateOne_missing [of Categories db "''_id''" "JStr (param_id req)"]
  by (simp add: put_category_A_def collection_def)

lemma put_category_A_success:
  assumes "put_category_A e req db = (r, db')" "status r = 200"
  shows "\<exists>i. first_index (matches ''_id'' (JStr (param_id req))) (categories db) = Some i
           \<and> r = respond 200 (Doc (apply_set (category_updateData e (body req)) (categories db ! i)))
           \<and> db' = db\<lparr>categories :=
                        (categories db)[i := apply_set (category_updateData e (body req))
                                               (categories db ! i)],
                      calls := calls db @ [UpdateOne Categories, FindOne Categories]\<rparr>"
proof -
  let ?u = "category_updateData e (body req)"
  obtain res db1 where u: "updateOne Categories ''_id'' (JStr (param_id req)) ?u db = (res, db1)"
    by (cases "updateOne Categories ''_id'' (JStr (param_id req)) ?u db")
  from assms u obtain m where m: "res = Inr m" "m \<noteq> 0"
    by (cases res) (auto simp: put_category_A_def respond_def split: if_splits)
  from update_then_find [OF u [unfolded m(1)] m(2) category_updateData_keys]
  obtain i where i: "first_index (matches ''_id'' (JStr (param_id req))) (collection Categories db) = Some i"
    and d: "db1 = put_collection Categories
                     ((collection Categories db)[i := apply_set ?u (collection Categories db ! i)])
                     (logged (UpdateOne Categories) db)"
    and f: "findOne Categories ''_id'' (JStr (param_id req)) db1
               = (Some (apply_set ?u (collection Categories db ! i)), logged (FindOne Categories) db1)"
    by blast
  from assms(1) u m f have "r = respond 200 (Doc (apply_set ?u (collection Categories db ! i)))"
    and "db' = logged (FindOne Categories) db1"
    by (auto simp: put_category_A_def)
  with i d show ?thesis by (auto simp: gateway_defs)
qed

lemma put_category_A_found:
  assumes "first_index (matches ''_id'' (JStr (param_id req))) (categories db) = Some i"
    and "\<not> categories_name_unique db"
  shows "put_category_A e req db
         = (respond 200 (Doc (apply_set (category_updateData e (body req)) (categories db ! i))),
            db\<lparr>categories :=
                 (categories db)[i := apply_set (category_updateData e (body req))
                                        (categories db ! i)],
               calls := calls db @ [UpdateOne Categories, FindOne Categories]\<rparr>)"
proof -
  let ?u = "category_updateData e (body req)"
  have u: "updateOne Categories ''_id'' (JStr (param_id req)) ?u db
        = (Inr 1, put_collection Categories
                    ((collection Categories db)[i := apply_set ?u (collection Categories db ! i)])
                    (logged (UpdateOne Categories) db))"
    using assms by (intro updateOne_found) (simp_all add: collection_def name_unique_def)
  have i: "first_index (matches ''_id'' (JStr (param_id req))) (collection Categories db) = Some i"
    using assms(1) by (simp add: collection_def)
  from findOne_after_update [OF i category_updateData_keys, of e "body req" "logged (UpdateOne Categories) db"] u
  show ?thesis
    by (simp add: put_category_A_def gateway_defs)
qed

lemma write_subcategory_A_missing:
  "\<forall>c \<in> set (subcategories db). \<not> matches ''_id'' (JStr (param_id req)) c \<Longrightarrow>
   write_subcategory_A u req db
   = (respond 404 (Error ''Subcategory not found''), logged (UpdateOne Subcategories) db)"
  using updateOne_missing [of Subcategories db "''_id''" "JStr (param_id req)"]
  by (simp add: write_subcategory_A_def collection_def)

lemma write_subcategory_A_success:
  assumes "write_subcategory_A u req db = (r, db')" "status r = 200"
    and "''_id'' \<notin> fst ` set u"
  shows "\<exists>i. first_index (matches ''_id'' (JStr (param_id req))) (subcategories db) = Some i
           \<and> r = respond 200 (Doc (apply_set u (subcategories db ! i)))
           \<and> db' = db\<lparr>subcategories := (subcategories db)[i := apply_set u (subcategories db ! i)],
                      calls := calls db @ [UpdateOne Subcategories, FindOne Subcategories]\<rparr>"
proof -
  obtain res db1 where u: "updateOne Subcategories ''_id'' (JStr (param_id req)) u db = (res, db1)"
    by (cases "updateOne Subcategories ''_id'' (JStr (param_id req)) u db")
  from assms u obtain m where m: "res = Inr m" "m \<noteq> 0"
    by (cases res) (auto simp: write_subcategory_A_def respond_def split: if_splits)
  from update_then_find [OF u [unfolded m(1)] m(2) assms(3)]
  obtain i where i: "first_index (matches ''_id'' (JStr (param_id req))) (collection Subcategories db) = Some i"
    and d: "db1 = put_collection Subcategories
                     ((collection Subcategories db)[i := apply_set u (collection Subcategories db ! i)])
                     (logged (UpdateOne Subcategories) db)"
    and f: "findOne Subcategories ''_id'' (JStr (param_id req)) db1
               = (Some (apply_set u (collection Subcategories db ! i)), logged (FindOne Subcategories) db1)"
    by blast
  from assms(1) u m f have "r = respond 200 (Doc (apply_set u (collection Subcategories db ! i)))"
    and "db' = logged (FindOne Subcategories) db1"
    by (auto simp: write_subcategory_A_def)
  with i d show ?thesis by (auto simp: gateway_defs)
qed

lemma write_subcategory_A_found:
  assumes "first_index (matches ''_id'' (JStr (param_id req))) (subcategories db) = Some i"
    and "\<not> subcategories_name_unique db" and "''_id'' \<notin> fst ` set u"
  shows "write_subcategory_A u req db
         = (respond 200 (Doc (apply_set u (subcategories db ! i))),
            db\<lparr>subcategories := (subcategories db)[i := apply_set u (subcategories db ! i)],
               calls := calls db @ [UpdateOne Subcategories, FindOne Subcategories]\<rparr>)"
proof -
  have up: "updateOne Subcategories ''_id'' (JStr (param_id req)) u db
        = (Inr 1, put_collection Subcategories
                    ((collection Subcategories db)[i := apply_set u (collection Subcategories db ! i)])
                    (logged (UpdateOne Subcategories) db))"
    using assms by (intro updateOne_found) (simp_all add: collection_def name_unique_def)
  have i: "first_index (matches ''_id'' (JStr (param_id req))) (collection Subcategories db) = Some i"
    using assms(1) by (simp add: collection_def)
  from findOne_after_update [OF i assms(3), of "logged (UpdateOne Subcategories) db"] up
  show ?thesis
    by (simp add: write_subcategory_A_def gateway_defs)
qed


lemma category_doc_after:
  "map_of (apply_set (category_updateData e b) d) f
   = (if f = ''updatedAt'' then Some (JDate (clock e))
      else if f \<in> {''name'', ''description'', ''image'', ''isActive''} \<and> map_of b f \<noteq> None
      then map_of b f
      else map_of d f)"
proof -
  have "map_of (apply_set (category_updateData e b) d) f
        = (case map_of (rev (category_updateData e b)) f of Some v \<Rightarrow> Some v | None \<Rightarrow> map_of d f)"
    by (rule map_of_apply_set)
  also have "\<dots> = (if f = ''updatedAt'' then Some (JDate (clock e))
      else if f \<in> {''name'', ''description'', ''image'', ''isActive''} \<and> map_of b f \<noteq> None
      then map_of b f
      else map_of d f)"
    unfolding category_updateData_map by (cases "map_of b f") simp_all
  finally show ?thesis .
qed

lemma subcategory_doc_after:
  assumes "\<forall>f. map_of (rev u) f
                 = (if f = ''updatedAt'' then Some (JDate (clock e))
                    else if f \<in> {''name'', ''description'', ''image'', ''isActive'', ''categoryId''}
                    then map_of b f else None)"
  shows "map_of (apply_set u d) f
   = (if f = ''updatedAt'' then Some (JDate (clock e))
      else if f \<in> {''name'', ''description'', ''image'', ''isActive'', ''categoryId''}
              \<and> map_of b f \<noteq> None
      then map_of b f
      else map_of d f)"
proof -
  have "map_of (apply_set u d) f
        = (case map_of (rev u) f of Some v \<Rightarrow> Some v | None \<Rightarrow> map_of d f)"
    by (rule map_of_apply_set)
  also have "\<dots> = (if f = ''updatedAt'' then Some (JDate (clock e))
      else if f \<in> {''name'', ''description'', ''image'', ''isActive'', ''categoryId''}
              \<and> map_of b f \<noteq> None
      then map_of b f
      else map_of d f)"
    unfolding assms [rule_format] by (cases "map_of b f") simp_all
  finally show ?thesis .
qed

lemma put_subcategory_A_no_parent:
  assumes "map_of (body req) ''categoryId'' = Some cid"
    and "\<not> (\<exists>c \<in> set (categories db). matches ''_id'' cid c)"
  shows "put_subcategory_A e req db
         = (respond 400 (Error ''Parent category not found''), logged (FindOne Categories) db)"
  using assms findOne_missing [of Categories db "''_id''" cid]
  by (simp add: put_subcategory_A_def collection_def)

lemma put_subcategory_A_parent:
  assumes "map_of (body req) ''categoryId'' = Some cid"
    and "\<exists>c \<in> set (categories db). matches ''_id'' cid c"
  shows "put_subcategory_A e req db
         = write_subcategory_A (subcategory_updateData e (body req) @ [(''categoryId'', cid)]) req
             (logged (FindOne Categories) db)"
proof -
  from assms(2) have "\<exists>x \<in> set (collection Categories db). matches ''_id'' cid x"
    by (simp add: collection_def)
  from findOne_found [OF this] obtain d where
    "findOne Categories ''_id'' cid db = (Some d, logged (FindOne Categories) db)" ..
  with assms(1) show ?thesis by (simp add: put_subcategory_A_def)
qed

lemma put_subcategory_A_plain:
  assumes "map_of (body req) ''categoryId'' = None"
  shows "put_subcategory_A e req db
         = write_subcategory_A (subcategory_updateData e (body req)) req db"
  using assms by (simp add: put_subcategory_A_def)

lemma put_subcategory_A_as_write:
  assumes "put_subcategory_A e req db = (r, db')" "status r = 200"
  shows "\<exists>u db0. ''_id'' \<notin> fst ` set u \<and> write_subcategory_A u req db0 = (r, db')
          \<and> subcategories db0 = subcategories db \<and> categories db0 = categories db
          \<and> (\<forall>f. map_of (rev u) f
                 = (if f = ''updatedAt'' then Some (JDate (clock e))
                    else if f \<in> {''name'', ''description'', ''image'', ''isActive'', ''categoryId''}
                    then map_of (body req) f else None))"
proof (cases "map_of (body req) ''categoryId''")
  case None
  let ?u = "subcategory_updateData e (body req)"
  have w: "write_subcategory_A ?u req db = (r, db')"
    using put_subcategory_A_plain [OF None, of e db] assms(1) by simp
  have m: "\<forall>f. map_of (rev ?u) f
                 = (if f = ''updatedAt'' then Some (JDate (clock e))
                    else if f \<in> {''name'', ''description'', ''image'', ''isActive'', ''categoryId''}
                    then map_of (body req) f else None)"
    using None by (simp add: subcategory_updateData_map)
  from w m subcategory_updateData_keys(1) [of e "body req"] show ?thesis by blast
next
  case (Some cid)
  show ?thesis
  proof (cases "\<exists>c \<in> set (categories db). matches ''_id'' cid c")
    case True
    let ?u = "subcategory_updateData e (body req) @ [(''categoryId'', cid)]"
    let ?db0 = "logged (FindOne Categories) db"
    have w: "write_subcategory_A ?u req ?db0 = (r, db')"
      using put_subcategory_A_parent [OF Some True, of e] assms(1) by simp
    have m: "\<forall>f. map_of (rev ?u) f
                 = (if f = ''updatedAt'' then Some (JDate (clock e))
                    else if f \<in> {''name'', ''description'', ''image'', ''isActive'', ''categoryId''}
                    then map_of (body req) f else None)"
      using Some unfolding subcategory_updateData_map_cid by simp
    have s: "subcategories ?db0 = subcategories db" "categories ?db0 = categories db"
      by (simp_all add: logged_def)
    from w m s subcategory_updateData_keys(2) [of e "body req" cid] show ?thesis by blast
  next
    case False
    from put_subcategory_A_no_parent [OF Some False, of e] assms show ?thesis
      by (simp add: respond_def)
  qed
qed

lemma category_update_frame:
  assumes "put_category_A e req db = (r, db')" "status r = 200"
  shows "subcategories db' = subcategories db
        \<and> (\<exists>i < length (categories db). \<exists>d'.
              matches ''_id'' (JStr (param_id req)) (categories db ! i)
              \<and> (\<forall>j < i. \<not> matches ''_id'' (JStr (param_id req)) (categories db ! j))
              \<and> categories db' = (categories db)[i := d']
              \<and> (\<forall>f. map_of d' f
                      = (if f = ''updatedAt'' then Some (JDate (clock e))
                         else if f \<in> {''name'', ''description'', ''image'', ''isActive''}
                                 \<and> map_of (body req) f \<noteq> None
                         then map_of (body req) f
                         else map_of (categories db ! i) f)))"
proof -
  let ?k = "JStr (param_id req)"
  from put_category_A_success [OF assms] obtain i where
    i: "first_index (matches ''_id'' ?k) (categories db) = Some i"
    and d: "db' = db\<lparr>categories :=
                        (categories db)[i := apply_set (category_updateData e (body req))
                                               (categories db ! i)],
                      calls := calls db @ [UpdateOne Categories, FindOne Categories]\<rparr>"
    by blast
  let ?d' = "apply_set (category_updateData e (body req)) (categories db ! i)"
  from d have s: "subcategories db' = subcategories db" and c: "categories db' = (categories db)[i := ?d']"
    by simp_all
  from first_index_Some [OF i] have l: "i < length (categories db)"
    and m: "matches ''_id'' ?k (categories db ! i)"
    and n: "\<forall>j < i. \<not> matches ''_id'' ?k (categories db ! j)"
    by simp_all
  have f: "\<forall>f. map_of ?d' f
                      = (if f = ''updatedAt'' then Some (JDate (clock e))
                         else if f \<in> {''name'', ''description'', ''image'', ''isActive''}
                                 \<and> map_of (body req) f \<noteq> None
                         then map_of (body req) f
                         else map_of (categories db ! i) f)"
    by (rule allI) (rule category_doc_after)
  from s l m n c f show ?thesis by blast
qed

lemma subcategory_update_frame:
  assumes "put_subcategory_A e req db = (r, db')" "status r = 200"
  shows "categories db' = categories db
        \<and> (\<exists>i < length (subcategories db). \<exists>d'.
              matches ''_id'' (JStr (param_id req)) (subcategories db ! i)
              \<and> (\<forall>j < i. \<not> matches ''_id'' (JStr (param_id req)) (subcategories db ! j))
              \<and> subcategories db' = (subcategories db)[i := d']
              \<and> (\<forall>f. map_of d' f
                      = (if f = ''updatedAt'' then Some (JDate (clock e))
                         else if f \<in> {''name'', ''description'', ''image'', ''isActive'',
                                        ''categoryId''}
                                 \<and> map_of (body req) f \<noteq> None
                         then map_of (body req) f
                         else map_of (subcategories db ! i) f)))"
proof -
  let ?k = "JStr (param_id req)"
  from put_subcategory_A_as_write [OF assms] obtain u db0 where
    u: "''_id'' \<notin> fst ` set u" and w: "write_subcategory_A u req db0 = (r, db')"
    and s0: "subcategories db0 = subcategories db" and c0: "categories db0 = categories db"
    and mu: "\<forall>f. map_of (rev u) f
                 = (if f = ''updatedAt'' then Some (JDate (clock e))
                    else if f \<in> {''name'', ''description'', ''image'', ''isActive'', ''categoryId''}
                    then map_of (body req) f else None)"
    by blast
  from write_subcategory_A_success [OF w assms(2) u] obtain i where
    i: "first_index (matches ''_id'' ?k) (subcategories db0) = Some i"
    and d: "db' = db0\<lparr>subcategories := (subcategories db0)[i := apply_set u (subcategories db0 ! i)],
                      calls := calls db0 @ [UpdateOne Subcategories, FindOne Subcategories]\<rparr>"
    by blast
  let ?d' = "apply_set u (subcategories db ! i)"
  from d s0 c0 have c: "categories db' = categories db"
    and s: "subcategories db' = (subcategories db)[i := ?d']"
    by simp_all
  from first_index_Some [OF i] s0 have l: "i < length (subcategories db)"
    and m: "matches ''_id'' ?k (subcategories db ! i)"
    and n: "\<forall>j < i. \<not> matches ''_id'' ?k (subcategories db ! j)"
    by simp_all
  have f: "\<forall>f. map_of ?d' f
                      = (if f = ''updatedAt'' then Some (JDate (clock e))
                         else if f \<in> {''name'', ''description'', ''image'', ''isActive'',
                                        ''categoryId''}
                                 \<and> map_of (body req) f \<noteq> None
                         then map_of (body req) f
                         else map_of (subcategories db ! i) f)"
    by (rule allI) (rule subcategory_doc_after [OF mu])
  from c l m n s f show ?thesis by blast
qed

text \<open>
  Claim C7. A successful update (answer 200) of a category or of a subcategory replaces
  exactly one document, the first one matching the identifier, and leaves the other
  collection alone. In the new document \<open>updatedAt\<close> is the time of the request,
  whatever the body holds (an empty body included); each of \<open>name\<close>, \<open>description\<close>,
  \<open>image\<close>, \<open>isActive\<close> (and \<open>categoryId\<close>, for a subcategory) that the body
  supplies has the supplied value; every other field is as it was. Keys of the body
  outside these fields are not read.
\<close>

theorem update_frame:
  "(put_category_A e req db = (r, db') \<and> status r = 200
      \<longrightarrow> subcategories db' = subcategories db
        \<and> (\<exists>i < length (categories db). \<exists>d'.
              matches ''_id'' (JStr (param_id req)) (categories db ! i)
              \<and> (\<forall>j < i. \<not> matches ''_id'' (JStr (param_id req)) (categories db ! j))
              \<and> categories db' = (categories db)[i := d']
              \<and> (\<forall>f. map_of d' f
                      = (if f = ''updatedAt'' then Some (JDate (clock e))
                         else if f \<in> {''name'', ''description'', ''image'', ''isActive''}
                                 \<and> map_of (body req) f \<noteq> None
                         then map_of (body req) f
                         else map_of (categories db ! i) f))))
   \<and> (put_subcategory_A e req db = (r2, db2) \<and> status r2 = 200
      \<longrightarrow> categories db2 = categories db
        \<and> (\<exists>i < length (subcategories db). \<exists>d'.
              matches ''_id'' (JStr (param_id req)) (subcategories db ! i)
              \<and> (\<forall>j < i. \<not> matches ''_id'' (JStr (param_id req)) (subcategories db ! j))
              \<and> subcategories db2 = (subcategories db)[i := d']
              \<and> (\<forall>f. map_of d' f
                      = (if f = ''updatedAt'' then Some (JDate (clock e))
                         else if f \<in> {''name'', ''description'', ''image'', ''isActive'',
                                        ''categoryId''}
                                 \<and> map_of (body req) f \<noteq> None
                         then map_of (body req) f
                         else map_of (subcategories db ! i) f))))"
  using category_update_frame [of e req db r db'] subcategory_update_frame [of e req db r2 db2]
  by blast

lemma put_category_A_refreshed:
  assumes "\<exists>c \<in> set (categories db). matches ''_id'' (JStr (param_id req)) c"
    and "\<not> categories_name_unique db"
  shows "\<exists>i < length (categories db).
           matches ''_id'' (JStr (param_id req)) (categories db ! i)
           \<and> (\<forall>j < i. \<not> matches ''_id'' (JStr (param_id req)) (categories db ! j))
           \<and> fst (put_category_A e req db)
               = respond 200 (Doc (categories (snd (put_category_A e req db)) ! i))"
proof -
  from first_index_least [OF assms(1)] obtain i where
    i: "first_index (matches ''_id'' (JStr (param_id req))) (categories db) = Some i"
    and l: "i < length (categories db)"
    and m: "matches ''_id'' (JStr (param_id req)) (categories db ! i)"
    and n: "\<forall>j < i. \<not> matches ''_id'' (JStr (param_id req)) (categories db ! j)"
    by blast
  from put_category_A_found [OF i assms(2), of e] l
  have "fst (put_category_A e req db)
               = respond 200 (Doc (categories (snd (put_category_A e req db)) ! i))"
    by simp
  with l m n show ?thesis by blast
qed

lemma write_subcategory_A_refreshed:
  assumes "\<exists>c \<in> set (subcategories db). matches ''_id'' (JStr (param_id req)) c"
    and "\<not> subcategories_name_unique db" and "''_id'' \<notin> fst ` set u"
  shows "\<exists>i < length (subcategories db).
           matches ''_id'' (JStr (param_id req)) (subcategories db ! i)
           \<and> (\<forall>j < i. \<not> matches ''_id'' (JStr (param_id req)) (subcategories db ! j))
           \<and> fst (write_subcategory_A u req db)
               = respond 200 (Doc (subcategories (snd (write_subcategory_A u req db)) ! i))"
proof -
  from first_index_least [OF assms(1)] obtain i where
    i: "first_index (matches ''_id'' (JStr (param_id req))) (subcategories db) = Some i"
    and l: "i < length (subcategories db)"
    and m: "matches ''_id'' (JStr (param_id req)) (subcategories db ! i)"
    and n: "\<forall>j < i. \<not> matches ''_id'' (JStr (param_id req)) (subcategories db ! j)"
    by blast
  from write_subcategory_A_found [OF i assms(2,3)] l
  have "fst (write_subcategory_A u req db)
               = respond 200 (Doc (subcategories (snd (write_subcategory_A u req db)) ! i))"
    by simp
  with l m n show ?thesis by blast
qed

text \<open>A subcategory update that passes the parent check is the update proper.\<close>

lemma put_subcategory_A_passes:
  assumes "parent_check_passes req db"
  shows "\<exists>u db0. ''_id'' \<notin> fst ` set u
           \<and> put_subcategory_A e req db = write_subcategory_A u req db0
           \<and> subcategories db0 = subcategories db
           \<and> subcategories_name_unique db0 = subcategories_name_unique db"
proof (cases "map_of (body req) ''categoryId''")
  case None
  from put_subcategory_A_plain [OF None, of e db] subcategory_updateData_keys(1) [of e "body req"]
  show ?thesis by blast
next
  case (Some cid)
  with assms have "\<exists>c \<in> set (categories db). matches ''_id'' cid c"
    by (simp add: parent_check_passes_def)
  from put_subcategory_A_parent [OF Some this, of e]
    subcategory_updateData_keys(2) [of e "body req" cid]
  have "''_id'' \<notin> fst ` set (subcategory_updateData e (body req) @ [(''categoryId'', cid)])
        \<and> put_subcategory_A e req db
           = write_subcategory_A (subcategory_updateData e (body req) @ [(''categoryId'', cid)]) req
               (logged (FindOne Categories) db)
        \<and> subcategories (logged (FindOne Categories) db) = subcategories db
        \<and> subcategories_name_unique (logged (FindOne Categories) db) = subcategories_name_unique db"
    by (simp add: logged_def)
  then show ?thesis by blast
qed

lemma put_subcategory_A_not_found:
  assumes "parent_check_passes req db"
    and "\<not> (\<exists>s \<in> set (subcategories db). matches ''_id'' (JStr (param_id req)) s)"
  shows "fst (put_subcategory_A e req db) = respond 404 (Error ''Subcategory not found'')
         \<and> subcategories (snd (put_subcategory_A e req db)) = subcategories db"
proof -
  from put_subcategory_A_passes [OF assms(1), of e] obtain u db0 where
    w: "put_subcategory_A e req db = write_subcategory_A u req db0"
    and s: "subcategories db0 = subcategories db"
    by blast
  from assms(2) s have "\<forall>c \<in> set (subcategories db0). \<not> matches ''_id'' (JStr (param_id req)) c"
    by simp
  from write_subcategory_A_missing [OF this, of u] w s show ?thesis
    by (simp add: logged_def)
qed

lemma put_subcategory_A_refreshed:
  assumes "parent_check_passes req db"
    and "\<exists>s \<in> set (subcategories db). matches ''_id'' (JStr (param_id req)) s"
    and "\<not> subcategories_name_unique db"
  shows "\<exists>i < length (subcategories db).
           matches ''_id'' (JStr (param_id req)) (subcategories db ! i)
           \<and> (\<forall>j < i. \<not> matches ''_id'' (JStr (param_id req)) (subcategories db ! j))
           \<and> fst (put_subcategory_A e req db)
               = respond 200 (Doc (subcategories (snd (put_subcategory_A e req db)) ! i))"
proof -
  from put_subcategory_A_passes [OF assms(1), of e] obtain u db0 where
    u: "''_id'' \<notin> fst ` set u"
    and w: "put_subcategory_A e req db = write_subcategory_A u req db0"
    and s: "subcategories db0 = subcategories db"
    and f: "subcategories_name_unique db0 = subcategories_name_unique db"
    by blast
  from assms(2,3) s f
  have "\<exists>c \<in> set (subcategories db0). matches ''_id'' (JStr (param_id req)) c"
    and "\<not> subcategories_name_unique db0"
    by simp_all
  from write_subcategory_A_refreshed [OF this u] w s show ?thesis by simp
qed

text \<open>
  Claim C3, as amended. A category update answers 404 when no category matches the
  identifier and otherwise, on a collection without unique index, 200 with the document
  as it is stored after the update. A subcategory update does the same provided the
  parent check passes, that is, the body supplies no \<open>categoryId\<close> or one that
  identifies a category. When the supplied \<open>categoryId\<close> identifies no category the
  answer is 400, whether or not the subcategory exists, and no update is attempted.
\<close>

theorem update_responses:
  "(\<not> (\<exists>c \<in> set (categories db). matches ''_id'' (JStr (param_id req)) c)
      \<longrightarrow> put_category_A e req db
            = (respond 404 (Error ''Category not found''), logged (UpdateOne Categories) db))
   \<and> ((\<exists>c \<in> set (categories db). matches ''_id'' (JStr (param_id req)) c)
       \<and> \<not> categories_name_unique db
      \<longrightarrow> (\<exists>i < length (categories db).
             matches ''_id'' (JStr (param_id req)) (categories db ! i)
             \<and> (\<forall>j < i. \<not> matches ''_id'' (JStr (param_id req)) (categories db ! j))
             \<and> fst (put_category_A e req db)
                 = respond 200 (Doc (categories (snd (put_category_A e req db)) ! i))))
   \<and> (parent_check_passes req db
       \<and> \<not> (\<exists>s \<in> set (subcategories db). matches ''_id'' (JStr (param_id req)) s)
      \<longrightarrow> fst (put_subcategory_A e req db) = respond 404 (Error ''Subcategory not found'')
        \<and> subcategories (snd (put_subcategory_A e req db)) = subcategories db)
   \<and> (parent_check_passes req db
       \<and> (\<exists>s \<in> set (subcategories db). matches ''_id'' (JStr (param_id req)) s)
       \<and> \<not> subcategories_name_unique db
      \<longrightarrow> (\<exists>i < length (subcategories db).
             matches ''_id'' (JStr (param_id req)) (subcategories db ! i)
             \<and> (\<forall>j < i. \<not> matches ''_id'' (JStr (param_id req)) (subcategories db ! j))
             \<and> fst (put_subcategory_A e req db)
                 = respond 200 (Doc (subcategories (snd (put_subcategory_A e req db)) ! i))))
   \<and> (map_of (body req) ''categoryId'' = Some cid
       \<and> \<not> (\<exists>c \<in> set (categories db). matches ''_id'' cid c)
      \<longrightarrow> put_subcategory_A e req db
            = (respond 400 (Error ''Parent category not found''), logged (FindOne Categories) db))"
  using put_category_A_missing [of db req e] put_category_A_refreshed [of db req e]
    put_subcategory_A_not_found [of req db e] put_subcategory_A_refreshed [of req db e]
    put_subcategory_A_no_parent [of req cid db e]
  by blast

subsection \<open>The parent category of a subcategory\<close>








subsection \<open>Unique category names\<close>

text \<open>
  Claim C4, as amended. Uniqueness of category names is the work of the unique index
  that variant B builds when it connects, and it is built whenever the stored names
  are pairwise different. Under that index a create whose name equals a stored name
  fails with 500 and stores nothing, and every request served by variant B keeps the
  index and the names pairwise different. Variant A builds no index and its create
  handler compares no names: on a collection without index it stores the new category
  whatever its name, provided the identifier made from the clock is new.
\<close>

theorem unique_category_names:
  "(categories_name_unique db \<and> truthy_opt (map_of (body req) ''name'')
    \<and> (\<exists>c \<in> set (categories db). field c ''name'' = field (body req) ''name'')
      \<longrightarrow> post_categories_B e req db
            = (respond 500 (Error ''Failed to create category''),
               logged (InsertOne Categories) db))
   \<and> (names_indexed db \<longrightarrow> names_indexed (snd (serve_B ep e req db)))
   \<and> (distinct (category_names db) \<longrightarrow> names_indexed (snd (connectDB_B True db)))
   \<and> (\<not> categories_name_unique db \<and> truthy_opt (map_of (body req) ''name'')
       \<and> (\<forall>c \<in> set (categories db). field c ''_id'' \<noteq> JStr (string_of_nat (clock e)))
      \<longrightarrow> post_categories_A e req db
            = (respond 201 (Doc (json_doc (new_category_A e (body req)))),
               (logged (InsertOne Categories) db)
                 \<lparr>categories := categories db @ [bson_doc (new_category_A e (body req))]\<rparr>))"
  using post_categories_B_duplicate [of db req e] names_indexed_serve_B [of db ep e req]
    connectDB_B_index [of db] post_categories_A_accepts [of db req e]
  by blast

subsection \<open>Tokens\<close>





section \<open>The properties at concrete requests\<close>

text \<open>
  Each property is instantiated on the concrete database above, and the claims that do
  not hold as first stated are refuted there.
\<close>

lemmas demo_defs =
  demo_env_def demo_db_def demo_req_def demo_category_def demo_subcategory_def
  demo_db_B_def demo_category_B_def demo_subcategory_B_def demo_verify_def demo_sign_def
  demo_payload_def demo_user_def

theorem required_field_falsy_A_witness:
  "(\<exists>v \<in> set falsy_values. map_of (body (demo_req\<lparr>body := [(''name'', JStr [])]\<rparr>)) ''name'' = Some v)
   \<and> post_categories_A demo_env (demo_req\<lparr>body := [(''name'', JStr [])]\<rparr>) demo_db
       = (respond 400 (Error ''Category name is required''), demo_db)
   \<and> post_subcategories_A demo_env (demo_req\<lparr>body := [(''name'', JStr [])]\<rparr>) demo_db
       = (respond 400 (Error ''Subcategory name is required''), demo_db)
   \<and> truthy_opt (map_of (body (demo_req\<lparr>body := [(''name'', JStr ''Zip''), (''categoryId'', JNum 0)]\<rparr>)) ''name'')
   \<and> post_subcategories_A demo_env
         (demo_req\<lparr>body := [(''name'', JStr ''Zip''), (''categoryId'', JNum 0)]\<rparr>) demo_db
       = (respond 400 (Error ''Category ID is required''), demo_db)"
  using required_field_falsy_A [where req = "demo_req\<lparr>body := [(''name'', JStr [])]\<rparr>"
      and e = demo_env and db = demo_db]
    required_field_falsy_A
      [where req = "demo_req\<lparr>body := [(''name'', JStr ''Zip''), (''categoryId'', JNum 0)]\<rparr>"
       and e = demo_env and db = demo_db]
  by (simp add: falsy_values_def truthy_opt_def demo_req_def)

theorem list_filter_truthy_witness:
  "query_categoryId (demo_req\<lparr>query_categoryId := Some []\<rparr>) = Some []
   \<and> get_subcategories_A demo_env (demo_req\<lparr>query_categoryId := Some []\<rparr>) demo_db
       = (respond 200 (Docs (subcategories demo_db)), logged (Find Subcategories) demo_db)
   \<and> get_subcategories_B demo_env (demo_req\<lparr>query_categoryId := Some ''300''\<rparr>) demo_db
       = (respond 200 (Docs []), logged (Find Subcategories) demo_db)"
  using list_filter_truthy [where req = "demo_req\<lparr>query_categoryId := Some []\<rparr>"
      and e = demo_env and db = demo_db]
    list_filter_truthy [where req = "demo_req\<lparr>query_categoryId := Some ''300''\<rparr>"
      and s = "''300''" and e = demo_env and db = demo_db]
  by (simp add: demo_req_def demo_db_def demo_subcategory_def field_def)

theorem authentication_gate_witness:
  "mutating PostCategories
   \<and> serve_A PostCategories demo_env demo_req demo_db
       = (respond 401 (Error ''Access token required''), demo_db)
   \<and> serve_B PostCategories demo_env (demo_req\<lparr>authorization := Some ''Bearer forged''\<rparr>) demo_db
       = (respond 403 (Error ''Invalid or expired token''), demo_db)
   \<and> serve_A DeleteCategory demo_env (demo_req\<lparr>authorization := Some ''Bearer good''\<rparr>) demo_db
       = delete_category_A demo_env
           (demo_req\<lparr>authorization := Some ''Bearer good'',
                      user := Some (demo_payload @ [(''iat'', JNum 5), (''exp'', JNum 2592005)])\<rparr>)
           demo_db"
  using authentication_gate [where ep = PostCategories and req = demo_req and e = demo_env
      and db = demo_db]
    authentication_gate [where ep = PostCategories
      and req = "demo_req\<lparr>authorization := Some ''Bearer forged''\<rparr>"
      and t = "''forged''" and e = demo_env and err = JsonWebTokenError and db = demo_db]
    authentication_gate [where ep = DeleteCategory
      and req = "demo_req\<lparr>authorization := Some ''Bearer good''\<rparr>"
      and t = "''good''" and e = demo_env
      and d = "demo_payload @ [(''iat'', JNum 5), (''exp'', JNum 2592005)]" and db = demo_db]
  by (simp add: demo_req_def demo_env_def demo_verify_def seconds_def)

theorem startup_secret_witness:
  "JWT_SECRET (demo_env\<lparr>JWT_SECRET := None\<rparr>) = None
   \<and> start_B (demo_env\<lparr>JWT_SECRET := None\<rparr>) True demo_db = ([Exit 1], demo_db)"
  using startup_secret [where e = "demo_env\<lparr>JWT_SECRET := None\<rparr>" and connects = True
      and db = demo_db]
  by simp

theorem startup_secret_counterexample:
  "JWT_SECRET (demo_env\<lparr>JWT_SECRET := None\<rparr>) = None
   \<and> fst (start_A (demo_env\<lparr>JWT_SECRET := None\<rparr>) True demo_db) = [Listen, Connected]
   \<and> Exit 1 \<notin> set (fst (start_A (demo_env\<lparr>JWT_SECRET := None\<rparr>) True demo_db))"
  by (simp add: start_A_def connectDB_A_def)


lemmas eval_defs =
  updateOne_def findOne_def insertOne_def deleteOne_def deleteMany_def find_docs_def
  Let_def gateway_defs matches_def field_def apply_set_def with_id_def
  category_updateData_def subcategory_updateData_def supplied_def respond_def truthy_opt_def

lemma string_of_nat_5000: "string_of_nat 5000 = ''5000''"
  by code_simp

theorem update_frame_witness:
  "status (fst (put_category_A demo_env (demo_req\<lparr>body := [(''description'', JStr ''Warm'')]\<rparr>)
                  demo_db)) = 200
   \<and> subcategories (snd (put_category_A demo_env
                            (demo_req\<lparr>body := [(''description'', JStr ''Warm'')]\<rparr>) demo_db))
       = subcategories demo_db
   \<and> status (fst (put_subcategory_A demo_env (demo_req\<lparr>param_id := ''200''\<rparr>) demo_db)) = 200
   \<and> categories (snd (put_subcategory_A demo_env (demo_req\<lparr>param_id := ''200''\<rparr>) demo_db))
       = categories demo_db"
proof -
  let ?rc = "demo_req\<lparr>body := [(''description'', JStr ''Warm'')]\<rparr>"
  let ?rs = "demo_req\<lparr>param_id := ''200''\<rparr>"
  have c: "status (fst (put_category_A demo_env ?rc demo_db)) = 200"
    by (simp add: put_category_A_def eval_defs demo_defs)
  have s: "status (fst (put_subcategory_A demo_env ?rs demo_db)) = 200"
    by (simp add: put_subcategory_A_def write_subcategory_A_def eval_defs demo_defs)
  from update_frame [where e = demo_env and req = ?rc and db = demo_db
      and r = "fst (put_category_A demo_env ?rc demo_db)"
      and db' = "snd (put_category_A demo_env ?rc demo_db)"
      and ?r2.0 = "fst (put_category_A demo_env ?rc demo_db)"
      and ?db2.0 = "snd (put_category_A demo_env ?rc demo_db)"] c
  have "subcategories (snd (put_category_A demo_env ?rc demo_db)) = subcategories demo_db"
    by simp
  moreover from update_frame [where e = demo_env and req = ?rs and db = demo_db
      and ?r2.0 = "fst (put_subcategory_A demo_env ?rs demo_db)"
      and ?db2.0 = "snd (put_subcategory_A demo_env ?rs demo_db)"
      and r = "fst (put_subcategory_A demo_env ?rs demo_db)"
      and db' = "snd (put_subcategory_A demo_env ?rs demo_db)"] s
  have "categories (snd (put_subcategory_A demo_env ?rs demo_db)) = categories demo_db"
    by simp
  ultimately show ?thesis using c s by blast
qed

theorem update_responses_witness:
  "put_category_A demo_env (demo_req\<lparr>param_id := ''999''\<rparr>) demo_db
     = (respond 404 (Error ''Category not found''), logged (UpdateOne Categories) demo_db)
   \<and> status (fst (put_category_A demo_env demo_req demo_db)) = 200
   \<and> fst (put_subcategory_A demo_env (demo_req\<lparr>param_id := ''999''\<rparr>) demo_db)
       = respond 404 (Error ''Subcategory not found'')
   \<and> status (fst (put_subcategory_A demo_env (demo_req\<lparr>param_id := ''200''\<rparr>) demo_db)) = 200
   \<and> put_subcategory_A demo_env
        (demo_req\<lparr>param_id := ''999'', body := [(''categoryId'', JStr ''999'')]\<rparr>) demo_db
       = (respond 400 (Error ''Parent category not found''), logged (FindOne Categories) demo_db)"
proof -
  have f: "\<not> categories_name_unique demo_db" "\<not> subcategories_name_unique demo_db"
    by (simp_all add: demo_db_def)
  have m1: "\<not> (\<exists>c \<in> set (categories demo_db).
               matches ''_id'' (JStr (param_id (demo_req\<lparr>param_id := ''999''\<rparr>))) c)"
    by (simp add: demo_defs matches_def field_def)
  have m2: "\<exists>c \<in> set (categories demo_db). matches ''_id'' (JStr (param_id demo_req)) c"
    by (simp add: demo_defs matches_def field_def)
  have p: "parent_check_passes (demo_req\<lparr>param_id := ''999''\<rparr>) demo_db"
    "parent_check_passes (demo_req\<lparr>param_id := ''200''\<rparr>) demo_db"
    by (simp_all add: parent_check_passes_def demo_req_def)
  have m3: "\<not> (\<exists>s \<in> set (subcategories demo_db).
               matches ''_id'' (JStr (param_id (demo_req\<lparr>param_id := ''999''\<rparr>))) s)"
    by (simp add: demo_defs matches_def field_def)
  have m4: "\<exists>s \<in> set (subcategories demo_db).
               matches ''_id'' (JStr (param_id (demo_req\<lparr>param_id := ''200''\<rparr>))) s"
    by (simp add: demo_defs matches_def field_def)
  have c5: "map_of (body (demo_req\<lparr>param_id := ''999'', body := [(''categoryId'', JStr ''999'')]\<rparr>))
              ''categoryId'' = Some (JStr ''999'')"
    by simp
  have m5: "\<not> (\<exists>c \<in> set (categories demo_db). matches ''_id'' (JStr ''999'') c)"
    by (simp add: demo_defs matches_def field_def)
  from update_responses [where db = demo_db and req = "demo_req\<lparr>param_id := ''999''\<rparr>"
      and e = demo_env and cid = JNull] m1 p(1) m3
  have a: "put_category_A demo_env (demo_req\<lparr>param_id := ''999''\<rparr>) demo_db
     = (respond 404 (Error ''Category not found''), logged (UpdateOne Categories) demo_db)"
    and b: "fst (put_subcategory_A demo_env (demo_req\<lparr>param_id := ''999''\<rparr>) demo_db)
       = respond 404 (Error ''Subcategory not found'')"
    by blast+
  from update_responses [where db = demo_db and req = demo_req and e = demo_env
      and cid = JNull] m2 f(1)
  obtain i where "fst (put_category_A demo_env demo_req demo_db)
      = respond 200 (Doc (categories (snd (put_category_A demo_env demo_req demo_db)) ! i))"
    by blast
  then have c: "status (fst (put_category_A demo_env demo_req demo_db)) = 200"
    by (simp add: respond_def)
  from update_responses [where db = demo_db and req = "demo_req\<lparr>param_id := ''200''\<rparr>"
      and e = demo_env and cid = JNull] p(2) m4 f(2)
  obtain j where "fst (put_subcategory_A demo_env (demo_req\<lparr>param_id := ''200''\<rparr>) demo_db)
      = respond 200 (Doc (subcategories
          (snd (put_subcategory_A demo_env (demo_req\<lparr>param_id := ''200''\<rparr>) demo_db)) ! j))"
    by blast
  then have d: "status (fst (put_subcategory_A demo_env (demo_req\<lparr>param_id := ''200''\<rparr>) demo_db)) = 200"
    by (simp add: respond_def)
  from update_responses [where db = demo_db
      and req = "demo_req\<lparr>param_id := ''999'', body := [(''categoryId'', JStr ''999'')]\<rparr>"
      and e = demo_env and cid = "JStr ''999''"] c5 m5
  have e: "put_subcategory_A demo_env
        (demo_req\<lparr>param_id := ''999'', body := [(''categoryId'', JStr ''999'')]\<rparr>) demo_db
       = (respond 400 (Error ''Parent category not found''), logged (FindOne Categories) demo_db)"
    by blast
  from a b c d e show ?thesis by blast
qed

theorem update_responses_counterexample:
  "matches ''_id'' (JStr ''200'') (subcategories demo_db ! 0)
   \<and> put_subcategory_A demo_env
        (demo_req\<lparr>param_id := ''200'', body := [(''categoryId'', JStr ''999'')]\<rparr>) demo_db
       = (respond 400 (Error ''Parent category not found''), logged (FindOne Categories) demo_db)
   \<and> status (fst (put_subcategory_A demo_env
        (demo_req\<lparr>param_id := ''200'', body := [(''categoryId'', JStr ''999'')]\<rparr>) demo_db)) \<noteq> 200"
  by (simp add: put_subcategory_A_def eval_defs demo_defs)



theorem unique_category_names_witness:
  "categories_name_unique demo_db_B
   \<and> field (categories demo_db_B ! 0) ''name'' = JStr ''Hoodies''
   \<and> post_categories_B demo_env (demo_req\<lparr>body := [(''name'', JStr ''Hoodies'')]\<rparr>) demo_db_B
       = (respond 500 (Error ''Failed to create category''),
          logged (InsertOne Categories) demo_db_B)
   \<and> names_indexed demo_db_B
   \<and> names_indexed
        (snd (serve_B PutCategory demo_env
               (demo_req\<lparr>authorization := Some ''Bearer good'',
                          param_id := ''65a1b2c3d4e5f60718293a00'',
                          body := [(''name'', JStr ''Jackets'')]\<rparr>)
               demo_db_B))
   \<and> names_indexed (snd (connectDB_B True demo_db))"
proof -
  let ?dup = "demo_req\<lparr>body := [(''name'', JStr ''Hoodies'')]\<rparr>"
  let ?put = "demo_req\<lparr>authorization := Some ''Bearer good'',
                          param_id := ''65a1b2c3d4e5f60718293a00'',
                          body := [(''name'', JStr ''Jackets'')]\<rparr>"
  have u: "categories_name_unique demo_db_B" by (simp add: demo_db_B_def)
  have n: "field (categories demo_db_B ! 0) ''name'' = JStr ''Hoodies''"
    by (simp add: demo_db_B_def demo_category_B_def field_def)
  have t: "truthy_opt (map_of (body ?dup) ''name'')" by (simp add: truthy_opt_def)
  have ex: "\<exists>c \<in> set (categories demo_db_B). field c ''name'' = field (body ?dup) ''name''"
    by (simp add: demo_db_B_def demo_category_B_def field_def)
  have i: "names_indexed demo_db_B"
    by (simp add: names_indexed_def category_names_def demo_db_B_def)
  have d: "distinct (category_names demo_db)"
    by (simp add: category_names_def demo_db_def)
  from unique_category_names [where db = demo_db_B and req = ?dup and e = demo_env
      and ep = PutCategory] u t ex
  have a: "post_categories_B demo_env ?dup demo_db_B
       = (respond 500 (Error ''Failed to create category''),
          logged (InsertOne Categories) demo_db_B)"
    by blast
  from unique_category_names [where db = demo_db_B and req = ?put and e = demo_env
      and ep = PutCategory] i
  have b: "names_indexed (snd (serve_B PutCategory demo_env ?put demo_db_B))"
    by blast
  from unique_category_names [where db = demo_db and req = demo_req and e = demo_env
      and ep = PutCategory] d
  have c: "names_indexed (snd (connectDB_B True demo_db))"
    by blast
  from u n a i b c show ?thesis by blast
qed

theorem unique_category_names_counterexample:
  "category_names demo_db = [JStr ''Hoodies'']
   \<and> status (fst (post_categories_A demo_env (demo_req\<lparr>body := [(''name'', JStr ''Hoodies'')]\<rparr>)
                    demo_db)) = 201
   \<and> category_names (snd (post_categories_A demo_env
                            (demo_req\<lparr>body := [(''name'', JStr ''Hoodies'')]\<rparr>) demo_db))
       = [JStr ''Hoodies'', JStr ''Hoodies'']"
  by (simp add: post_categories_A_def new_category_A_def eval_defs demo_defs category_names_def
      string_of_nat_5000)



end
